theory Spec2Isabelle
  imports Main "HOL-Library.Sublist"
begin

section \<open>Python values and exceptions of the script\<close>

text \<open>
  The script \<^verbatim>\<open>dai_instance_transfer.py\<close> passes three kinds of values around: strings,
  \<^verbatim>\<open>None\<close>, and the decorator functions that \<^verbatim>\<open>click.option(...)\<close> returns. A decorator
  is kept with the arguments it was built from.
\<close>

datatype click_default = NoDefaultGiven | DefaultNone

record click_option =
  opt_flag :: string
  opt_help :: string
  opt_required :: bool
  opt_default :: click_default

datatype pyval = PyNone | PyStr string | PyDecorator click_option

text \<open>
  The exceptions a run can raise, all subclasses of Python's \<^verbatim>\<open>Exception\<close>.
  \<open>ConfigException\<close> and \<open>InstanceNotFoundException\<close> are the two classes the script
  declares; \<open>Abort\<close> is \<^verbatim>\<open>click.exceptions.Abort\<close> (a \<^verbatim>\<open>RuntimeError\<close>);
  \<open>LibraryError\<close> stands for any exception raised inside a call into \<^verbatim>\<open>h2osteam\<close>,
  \<^verbatim>\<open>h2o_authn\<close>, the Driverless AI client or \<^verbatim>\<open>configparser\<close>, with its message.
\<close>

datatype exn =
    AttributeError string
  | KeyError string
  | ConfigException string
  | InstanceNotFoundException string
  | Abort
  | LibraryError string

definition type_name :: "pyval \<Rightarrow> string" where
  "type_name v = (case v of PyNone \<Rightarrow> ''NoneType'' | PyStr _ \<Rightarrow> ''str'' | PyDecorator _ \<Rightarrow> ''function'')"

text \<open>\<^verbatim>\<open>str(v)\<close>, as an f-string formats a value (the address in a function's repr is left out).\<close>

definition py_str :: "pyval \<Rightarrow> string" where
  "py_str v = (case v of PyNone \<Rightarrow> ''None'' | PyStr s \<Rightarrow> s
                | PyDecorator _ \<Rightarrow> ''<function option.<locals>.decorator>'')"

text \<open>\<^verbatim>\<open>s.rstrip(chars)\<close> on a string: drops every trailing character that is in \<open>chars\<close>.\<close>

definition rstrip :: "string \<Rightarrow> string \<Rightarrow> string" where
  "rstrip s chars = rev (dropWhile (\<lambda>c. c \<in> set chars) (rev s))"

text \<open>
  \<^verbatim>\<open>v.rstrip(chars)\<close> on any value: only \<^verbatim>\<open>str\<close> has the method, every other object
  raises \<^verbatim>\<open>AttributeError\<close>.
\<close>

definition call_rstrip :: "pyval \<Rightarrow> string \<Rightarrow> exn + string" where
  "call_rstrip v chars =
     (case v of
        PyStr s \<Rightarrow> Inr (rstrip s chars)
      | _ \<Rightarrow> Inl (AttributeError
                 ([CHR 0x27] @ type_name v @ [CHR 0x27] @ '' object has no attribute '' @
                  [CHR 0x27] @ ''rstrip'' @ [CHR 0x27])))"

section \<open>Config\<close>

text \<open>
  The file system as \<^verbatim>\<open>Config._load_config\<close> sees it. A path either does not exist,
  or exists and \<^verbatim>\<open>configparser\<close> fails on it, or exists and is read: then \<open>Parsed m\<close>
  gives for every section name what \<^verbatim>\<open>config[name]\<close> is, \<open>None\<close> where it raises
  \<^verbatim>\<open>KeyError\<close>. A section gives for every option what reading it with \<^verbatim>\<open>.get(option)\<close>
  does: the option is absent; or it has a value, which \<^verbatim>\<open>.get\<close> returns after
  interpolation; or its stored value cannot be interpolated (a stray \<^verbatim>\<open>%\<close> under the
  parser's default interpolation), and \<^verbatim>\<open>.get\<close> raises, with that message. The file is
  read without interpolating, so such a value does not make \<^verbatim>\<open>Config\<close> itself fail.
\<close>

datatype option_read = Absent | Value string | Uninterpolable string

type_synonym ini_section = "string \<Rightarrow> option_read"

datatype file_state = Missing | Unparsable string | Parsed "string \<Rightarrow> ini_section option"

record Config =
  steam_url :: string
  config_section :: ini_section

definition load_config :: "(string \<Rightarrow> file_state) \<Rightarrow> string \<Rightarrow> exn + ini_section" where
  "load_config files url =
     (let config_file = ''h2oai.config'' in
      case files config_file of
        Missing \<Rightarrow> Inl (ConfigException (''Config file does not exist: '' @ config_file))
      | Unparsable msg \<Rightarrow> Inl (LibraryError msg)
      | Parsed config \<Rightarrow>
          (case config url of None \<Rightarrow> Inl (KeyError url) | Some sec \<Rightarrow> Inr sec))"

definition Config_init :: "(string \<Rightarrow> file_state) \<Rightarrow> pyval \<Rightarrow> exn + Config" where
  "Config_init files steam_url_arg =
     (case call_rstrip steam_url_arg ''/'' of
        Inl e \<Rightarrow> Inl e
      | Inr url \<Rightarrow>
          (case load_config files url of
             Inl e \<Rightarrow> Inl e
           | Inr sec \<Rightarrow> Inr \<lparr>steam_url = url, config_section = sec\<rparr>))"

text \<open>
  \<^verbatim>\<open>self._config.get(option)\<close>: the value, or \<^verbatim>\<open>None\<close> when the option is absent, or
  the exception of the interpolation.
\<close>

definition section_get :: "ini_section \<Rightarrow> string \<Rightarrow> exn + pyval" where
  "section_get sec option =
     (case sec option of
        Absent \<Rightarrow> Inr PyNone
      | Value v \<Rightarrow> Inr (PyStr v)
      | Uninterpolable msg \<Rightarrow> Inl (LibraryError msg))"

definition refresh_token :: "Config \<Rightarrow> exn + pyval" where
  "refresh_token c = section_get (config_section c) ''refresh_token''"

definition client_id :: "Config \<Rightarrow> exn + pyval" where
  "client_id c = section_get (config_section c) ''client_id''"

definition token_endpoint :: "Config \<Rightarrow> exn + pyval" where
  "token_endpoint c = section_get (config_section c) ''token_endpoint''"

section \<open>The world outside the script\<close>

text \<open>
  Everything the script does to the outside is recorded, in order, in a history of calls.
  An instance object of the Steam SDK is kept with the two attributes the script reads.
\<close>

record sdk_instance =
  sdk_id :: int
  sdk_status :: pyval

datatype call =
    TokenProvider pyval pyval pyval
      \<comment> \<open>\<^verbatim>\<open>h2o_authn.TokenProvider(refresh_token=, client_id=, token_endpoint_url=)\<close>\<close>
  | TokenProviderCall
      \<comment> \<open>\<^verbatim>\<open>token_provider()\<close>\<close>
  | TokenProviderClose
      \<comment> \<open>\<^verbatim>\<open>token_provider.close()\<close>, called by \<^verbatim>\<open>contextlib.closing\<close> on exit\<close>
  | Login string pyval
      \<comment> \<open>\<^verbatim>\<open>h2osteam.login(url=, access_token=)\<close>\<close>
  | Confirm string
      \<comment> \<open>\<^verbatim>\<open>click.confirm(text, abort=True)\<close>\<close>
  | GetInstance pyval pyval
      \<comment> \<open>\<^verbatim>\<open>DriverlessClient().get_instance(name=, created_by=)\<close>\<close>
  | SetOwner int pyval
      \<comment> \<open>\<^verbatim>\<open>h2osteam.api().set_driverless_instance_owner(id, owner)\<close>\<close>
  | Stop sdk_instance
      \<comment> \<open>\<^verbatim>\<open>instance.stop()\<close>\<close>
  | Start sdk_instance pyval pyval
      \<comment> \<open>\<^verbatim>\<open>instance.start(cpu_count=, memory_gb=)\<close>\<close>
  | Connect sdk_instance
      \<comment> \<open>\<^verbatim>\<open>instance.connect()._backend.admin\<close>\<close>
  | TransferEntities pyval pyval
      \<comment> \<open>\<^verbatim>\<open>dai_admin.transfer_entities(username_from=, username_to=)\<close>\<close>
  | LogInfo string
      \<comment> \<open>\<^verbatim>\<open>logger.info(msg)\<close>\<close>
  | LogError exn
      \<comment> \<open>\<^verbatim>\<open>logger.error\<close> of the formatted traceback of the exception\<close>
  | EchoUsageError
      \<comment> \<open>click prints a usage error\<close>
  | EchoHelp
      \<comment> \<open>click prints the help page\<close>

type_synonym history = "call list"

text \<open>
  The environment decides how the outside answers. Each answer may depend on everything
  that happened so far: it is a function of the history whose last element is the call
  being answered.
  \<^item> \<open>files\<close>: the files of the current working directory;
  \<^item> \<open>fails\<close>: \<open>Some msg\<close> when the call just issued raises, with that message;
  \<^item> \<open>access_token\<close>: what \<^verbatim>\<open>token_provider()\<close> returns when it does not raise;
  \<^item> \<open>found\<close>: what the SDK lookup returns when it does not raise (\<open>None\<close> is Python's
    \<^verbatim>\<open>None\<close>);
  \<^item> \<open>answer\<close>: whether the user answers the confirmation prompt affirmatively
    (\<open>False\<close> also when the input ends or is interrupted: click raises \<open>Abort\<close> then).
\<close>

record environment =
  files :: "string \<Rightarrow> file_state"
  fails :: "history \<Rightarrow> string option"
  access_token :: "history \<Rightarrow> pyval"
  found :: "history \<Rightarrow> sdk_instance option"
  answer :: "history \<Rightarrow> bool"

text \<open>
  An action takes the history so far and returns the exception it raised (\<open>Inl\<close>) or its
  value (\<open>Inr\<close>), with the history extended by the calls it issued.
\<close>

type_synonym 'a action = "history \<Rightarrow> (exn + 'a) \<times> history"

definition andThen :: "'a action \<Rightarrow> ('a \<Rightarrow> 'b action) \<Rightarrow> 'b action" where
  "andThen m f h = (case m h of (Inl e, h') \<Rightarrow> (Inl e, h') | (Inr x, h') \<Rightarrow> f x h')"

definition done_ok :: "unit action" where
  "done_ok h = (Inr (), h)"

text \<open>Reading a property: its value or its exception, and no call.\<close>

definition evaluate :: "exn + 'a \<Rightarrow> 'a action" where
  "evaluate r h = (r, h)"

text \<open>A call into a library that returns nothing the script uses.\<close>

definition remote :: "environment \<Rightarrow> call \<Rightarrow> unit action" where
  "remote env c h =
     (let h' = h @ [c] in
      case fails env h' of Some msg \<Rightarrow> (Inl (LibraryError msg), h') | None \<Rightarrow> (Inr (), h'))"

definition token_provider_call :: "environment \<Rightarrow> pyval action" where
  "token_provider_call env h =
     (let h' = h @ [TokenProviderCall] in
      case fails env h' of
        Some msg \<Rightarrow> (Inl (LibraryError msg), h')
      | None \<Rightarrow> (Inr (access_token env h'), h'))"

text \<open>
  \<^verbatim>\<open>with closing(thing) as x: body\<close>: the body runs, then \<^verbatim>\<open>thing.close()\<close> is called
  whether the body raised or not; an exception of \<open>close\<close> replaces the body's outcome.
\<close>

definition closing :: "environment \<Rightarrow> 'a action \<Rightarrow> 'a action" where
  "closing env body h =
     (case body h of (r, h') \<Rightarrow>
        (case remote env TokenProviderClose h' of
           (Inl e, h'') \<Rightarrow> (Inl e, h'')
         | (Inr _, h'') \<Rightarrow> (r, h'')))"

text \<open>
  \<^verbatim>\<open>click.confirm(text, abort=True)\<close>: returns on an affirmative answer, raises \<open>Abort\<close>
  otherwise.
\<close>

definition click_confirm :: "environment \<Rightarrow> string \<Rightarrow> unit action" where
  "click_confirm env text h =
     (let h' = h @ [Confirm text] in
      if answer env h' then (Inr (), h') else (Inl Abort, h'))"

definition logger_info :: "string \<Rightarrow> unit action" where
  "logger_info msg h = (Inr (), h @ [LogInfo msg])"

section \<open>Instance and InstanceService\<close>

record Instance =
  wrapped :: sdk_instance

definition Instance_id :: "Instance \<Rightarrow> int" where
  "Instance_id i = sdk_id (wrapped i)"

definition Instance_status :: "Instance \<Rightarrow> pyval" where
  "Instance_status i = sdk_status (wrapped i)"

definition Instance_stop :: "environment \<Rightarrow> Instance \<Rightarrow> unit action" where
  "Instance_stop env i = remote env (Stop (wrapped i))"

text \<open>\<open>resources\<close> is the dictionary \<^verbatim>\<open>{"cpu_count": ..., "memory_gb": ...}\<close>, as a pair.\<close>

definition Instance_start :: "environment \<Rightarrow> Instance \<Rightarrow> pyval \<times> pyval \<Rightarrow> unit action" where
  "Instance_start env i resources = remote env (Start (wrapped i) (fst resources) (snd resources))"

definition Instance_connect :: "environment \<Rightarrow> Instance \<Rightarrow> unit action" where
  "Instance_connect env i = remote env (Connect (wrapped i))"

text \<open>
  The three keyword arguments of \<^verbatim>\<open>TokenProvider\<close> are read from the config in the order
  they are written, before the constructor is called.
\<close>

definition steam_login :: "environment \<Rightarrow> Config \<Rightarrow> unit action" where
  "steam_login env config =
     andThen (evaluate (refresh_token config)) (\<lambda>rt.
     andThen (evaluate (client_id config)) (\<lambda>cid.
     andThen (evaluate (token_endpoint config)) (\<lambda>te.
     andThen (remote env (TokenProvider rt cid te))
       (\<lambda>_. closing env
          (andThen (token_provider_call env)
             (\<lambda>token. remote env (Login (steam_url config) token)))))))"

definition quoted :: "pyval \<Rightarrow> string" where
  "quoted v = [CHR 0x27] @ py_str v @ [CHR 0x27]"

definition get_instance :: "environment \<Rightarrow> pyval \<Rightarrow> pyval \<Rightarrow> Instance action" where
  "get_instance env instance_name owner h =
     (let h' = h @ [GetInstance instance_name owner] in
      case fails env h' of
        Some msg \<Rightarrow> (Inl (LibraryError msg), h')
      | None \<Rightarrow>
          (case found env h' of
             None \<Rightarrow>
               (Inl (InstanceNotFoundException
                  (''Instance '' @ quoted instance_name @ '' belonging to '' @ quoted owner @
                   '' does not exist.'')), h')
           | Some inst \<Rightarrow> (Inr \<lparr>wrapped = inst\<rparr>, h')))"

definition set_instance_owner :: "environment \<Rightarrow> Instance \<Rightarrow> pyval \<Rightarrow> unit action" where
  "set_instance_owner env i owner = remote env (SetOwner (Instance_id i) owner)"

definition transfer_entities :: "environment \<Rightarrow> Instance \<Rightarrow> pyval \<Rightarrow> pyval \<Rightarrow> unit action" where
  "transfer_entities env i username_from username_to =
     andThen (Instance_connect env i)
       (\<lambda>_. remote env (TransferEntities username_from username_to))"

section \<open>CommandHandler\<close>

definition confirm_text :: "pyval \<Rightarrow> pyval \<Rightarrow> pyval \<Rightarrow> string" where
  "confirm_text instance_name old_user_name new_user_name =
     ''Do you want to transfer the instance '' @ quoted instance_name @ '' from '' @
     quoted old_user_name @ '' to '' @ quoted new_user_name @
     '' (this will shut the instance down and interrupt any running jobs)?''"

definition handle ::
  "environment \<Rightarrow> Config \<Rightarrow> pyval \<Rightarrow> pyval \<Rightarrow> pyval \<Rightarrow> pyval \<Rightarrow> pyval \<Rightarrow> pyval \<Rightarrow> unit action" where
  "handle env config admin_user_name instance_name old_user_name new_user_name
      instance_cpu instance_mem =
     andThen (steam_login env config) (\<lambda>_.
     andThen (click_confirm env (confirm_text instance_name old_user_name new_user_name)) (\<lambda>_.
     andThen (get_instance env instance_name old_user_name) (\<lambda>inst.
     andThen (set_instance_owner env inst admin_user_name) (\<lambda>_.
     andThen (if Instance_status inst = PyStr ''running'' then Instance_stop env inst else done_ok) (\<lambda>_.
     andThen (Instance_start env inst (instance_cpu, instance_mem)) (\<lambda>_.
     andThen (transfer_entities env inst old_user_name new_user_name) (\<lambda>_.
     andThen (Instance_stop env inst) (\<lambda>_.
     andThen (set_instance_owner env inst new_user_name) (\<lambda>_.
     logger_info ''Transfer complete.'')))))))))"

section \<open>The command\<close>

text \<open>
  The dictionary \<^verbatim>\<open>parse_command_line_options\<close> returns has seven fixed keys; it is a
  record here. Each value is what \<^verbatim>\<open>click.option(...)\<close> returns: a decorator.
\<close>

record options =
  admin_user_name :: pyval
  steam_url_option :: pyval
  instance_name :: pyval
  old_user_name :: pyval
  new_user_name :: pyval
  instance_cpu :: pyval
  instance_mem :: pyval

definition click_option_fn :: "string \<Rightarrow> string \<Rightarrow> click_default \<Rightarrow> bool \<Rightarrow> pyval" where
  "click_option_fn flag help dflt required =
     PyDecorator \<lparr>opt_flag = flag, opt_help = help, opt_required = required, opt_default = dflt\<rparr>"

definition parse_command_line_options :: options where
  "parse_command_line_options =
     \<lparr>admin_user_name = click_option_fn ''--admin-user-name''
        ''HAIC user name of Steam administrator invoking the transfer.'' NoDefaultGiven True,
      steam_url_option = click_option_fn ''--steam-url'' ''HAIC Steam URL.'' NoDefaultGiven True,
      instance_name = click_option_fn ''--instance-name''
        ''Name of Driverless AI instance on Steam to transfer.'' NoDefaultGiven True,
      old_user_name = click_option_fn ''--old-user-name''
        ''HAIC user name of instance owner.'' NoDefaultGiven True,
      new_user_name = click_option_fn ''--new-user-name''
        ''HAIC user name to transfer instance ownership to.'' NoDefaultGiven True,
      instance_cpu = click_option_fn ''--instance-cpu''
        ''Use if transfer stalls because instance cpu is too low.'' DefaultNone False,
      instance_mem = click_option_fn ''--instance-mem''
        ''Use if transfer stalls because instance mem is too low.'' DefaultNone False\<rparr>"

text \<open>
  The body of the \<^verbatim>\<open>try\<close> block of \<^verbatim>\<open>instance_transfer\<close>, from the options on: build the
  \<open>Config\<close>, the service and the handler, and call \<open>handle\<close>.
\<close>

definition try_block :: "environment \<Rightarrow> options \<Rightarrow> unit action" where
  "try_block env opts h =
     (case Config_init (files env) (steam_url_option opts) of
        Inl e \<Rightarrow> (Inl e, h)
      | Inr config \<Rightarrow>
          handle env config (admin_user_name opts) (instance_name opts) (old_user_name opts)
            (new_user_name opts) (instance_cpu opts) (instance_mem opts) h)"

text \<open>
  What the process leaves behind: its exit code and the history of its calls.
  \<^verbatim>\<open>except Exception\<close> logs the traceback and calls \<^verbatim>\<open>sys.exit(1)\<close>; when the callback
  returns, click exits with code 0.
\<close>

record outcome =
  exit_code :: int
  calls :: history

definition top_level :: "(exn + unit) \<times> history \<Rightarrow> outcome" where
  "top_level r =
     (case r of
        (Inl e, h) \<Rightarrow> \<lparr>exit_code = 1, calls = h @ [LogError e]\<rparr>
      | (Inr _, h) \<Rightarrow> \<lparr>exit_code = 0, calls = h\<rparr>)"

text \<open>The callback with the options it works on as a parameter, and the callback itself.\<close>

definition run_with :: "environment \<Rightarrow> options \<Rightarrow> outcome" where
  "run_with env opts = top_level (try_block env opts [])"

definition instance_transfer :: "environment \<Rightarrow> outcome" where
  "instance_transfer env = run_with env parse_command_line_options"

text \<open>
  The command as the process runs it: \<^verbatim>\<open>instance_transfer()\<close> under
  \<^verbatim>\<open>if __name__ == "__main__"\<close> hands the argument list to click before the callback
  runs. The command is built by \<^verbatim>\<open>@click.command()\<close> and \<^verbatim>\<open>@click.pass_context\<close>
  alone: the decorators of \<open>parse_command_line_options\<close> are never applied to it, so
  click's parser knows one option, the automatic \<^verbatim>\<open>--help\<close>. It reads the arguments from
  left to right: \<^verbatim>\<open>--\<close> ends the options; an argument that starts with \<^verbatim>\<open>-\<close> and has a
  second character is an option, a usage error unless it is \<^verbatim>\<open>--help\<close>; anything else
  is a positional argument. At the end \<^verbatim>\<open>--help\<close> prints the help page (exit code 0), a
  positional argument that is left over is a usage error (exit code 2), and otherwise the
  callback is invoked.
\<close>

datatype dispatch = Invoke | UsageExit | HelpExit

definition click_finish :: "bool \<Rightarrow> bool \<Rightarrow> dispatch" where
  "click_finish help extra = (if help then HelpExit else if extra then UsageExit else Invoke)"

fun click_parse_args :: "string list \<Rightarrow> bool \<Rightarrow> bool \<Rightarrow> dispatch" where
  "click_parse_args [] help extra = click_finish help extra"
| "click_parse_args (arg # rargs) help extra =
     (if arg = ''--'' then click_finish help (extra \<or> rargs \<noteq> [])
      else if take 1 arg = ''-'' \<and> 1 < length arg then
        (if arg = ''--help'' then click_parse_args rargs True extra else UsageExit)
      else click_parse_args rargs help True)"

definition instance_transfer_command :: "environment \<Rightarrow> string list \<Rightarrow> outcome" where
  "instance_transfer_command env argv =
     (case click_parse_args argv False False of
        Invoke \<Rightarrow> instance_transfer env
      | UsageExit \<Rightarrow> \<lparr>exit_code = 2, calls = [EchoUsageError]\<rparr>
      | HelpExit \<Rightarrow> \<lparr>exit_code = 0, calls = [EchoHelp]\<rparr>)"

section \<open>Vocabulary of the properties\<close>

text \<open>The remote operations on an instance: lookup, stop, start, entity transfer, owner reassignment.\<close>

definition is_instance_operation :: "call \<Rightarrow> bool" where
  "is_instance_operation c =
     (case c of
        GetInstance _ _ \<Rightarrow> True
      | SetOwner _ _ \<Rightarrow> True
      | Stop _ \<Rightarrow> True
      | Start _ _ _ \<Rightarrow> True
      | Connect _ \<Rightarrow> True
      | TransferEntities _ _ \<Rightarrow> True
      | _ \<Rightarrow> False)"

definition is_start :: "call \<Rightarrow> bool" where
  "is_start c = (case c of Start _ _ _ \<Rightarrow> True | _ \<Rightarrow> False)"

text \<open>
  Whether the call that ends the history \<open>p\<close> raises: a library call when the environment
  makes it fail, the lookup also when it finds nothing, the prompt when the answer is not
  affirmative. Logging and printing never raise.
\<close>

definition raises :: "environment \<Rightarrow> history \<Rightarrow> bool" where
  "raises env p =
     (case last p of
        Confirm _ \<Rightarrow> \<not> answer env p
      | GetInstance _ _ \<Rightarrow> fails env p \<noteq> None \<or> found env p = None
      | LogInfo _ \<Rightarrow> False
      | LogError _ \<Rightarrow> False
      | EchoUsageError \<Rightarrow> False
      | EchoHelp \<Rightarrow> False
      | _ \<Rightarrow> fails env p \<noteq> None)"

text \<open>
  The steps the specification names, and the step each call belongs to. Building, calling
  and closing the token provider are part of authenticating, and connecting to the instance
  is part of transferring its entities: the step is counted once, at the call that does it.
\<close>

datatype step =
    Authenticate | LocateInstance | AskConfirmation | StopInstance | ReassignOwner
  | StartInstance | TransferStep | LogResult

definition step_of :: "call \<Rightarrow> step option" where
  "step_of c =
     (case c of
        Login _ _ \<Rightarrow> Some Authenticate
      | Confirm _ \<Rightarrow> Some AskConfirmation
      | GetInstance _ _ \<Rightarrow> Some LocateInstance
      | SetOwner _ _ \<Rightarrow> Some ReassignOwner
      | Stop _ \<Rightarrow> Some StopInstance
      | Start _ _ _ \<Rightarrow> Some StartInstance
      | TransferEntities _ _ \<Rightarrow> Some TransferStep
      | LogInfo _ \<Rightarrow> Some LogResult
      | LogError _ \<Rightarrow> Some LogResult
      | _ \<Rightarrow> None)"

definition steps :: "history \<Rightarrow> step list" where
  "steps h = List.map_filter step_of h"

text \<open>
  The order as the specification words it: authenticate, locate instance, confirm,
  stop/reassign/start/transfer/reassign, log result.
\<close>

definition documented_order :: "step list" where
  "documented_order =
     [Authenticate, LocateInstance, AskConfirmation,
      StopInstance, ReassignOwner, StartInstance, TransferStep, ReassignOwner, LogResult]"

text \<open>
  What the calls of a history, all of them successful, do to the instance on the platform,
  as the SDK names them: \<open>stop\<close> leaves it stopped, \<open>start\<close> leaves it running, and
  \<open>set_driverless_instance_owner\<close> sets its owner. The platform itself is not part of the
  repository.
\<close>

record instance_state =
  is_running :: bool
  owner :: pyval

definition effect :: "call \<Rightarrow> instance_state \<Rightarrow> instance_state" where
  "effect c s =
     (case c of
        Stop _ \<Rightarrow> s\<lparr>is_running := False\<rparr>
      | Start _ _ _ \<Rightarrow> s\<lparr>is_running := True\<rparr>
      | SetOwner _ new_owner \<Rightarrow> s\<lparr>owner := new_owner\<rparr>
      | _ \<Rightarrow> s)"

definition state_after :: "history \<Rightarrow> instance_state \<Rightarrow> instance_state" where
  "state_after h s = fold effect h s"

text \<open>The calls of a call of \<open>handle\<close> that returns.\<close>

definition completed_calls ::
  "pyval \<Rightarrow> pyval \<Rightarrow> pyval \<Rightarrow> string \<Rightarrow> pyval \<Rightarrow> pyval \<Rightarrow> pyval \<Rightarrow> pyval \<Rightarrow> pyval \<Rightarrow> pyval \<Rightarrow> pyval \<Rightarrow>
   sdk_instance \<Rightarrow> call list" where
  "completed_calls rt cid te url a n old new cpu mem tok inst =
     [TokenProvider rt cid te,
      TokenProviderCall, Login url tok, TokenProviderClose,
      Confirm (confirm_text n old new), GetInstance n old, SetOwner (sdk_id inst) a] @
     (if sdk_status inst = PyStr ''running'' then [Stop inst] else []) @
     [Start inst cpu mem, Connect inst, TransferEntities old new, Stop inst,
      SetOwner (sdk_id inst) new, LogInfo ''Transfer complete.'']"

text \<open>
  The message of the \<open>AttributeError\<close> that \<^verbatim>\<open>.rstrip\<close> raises on a function, and the
  values of the dictionary of \<open>parse_command_line_options\<close>, in the order of its keys, with
  the flag and the \<^verbatim>\<open>required\<close> setting each was built from.
\<close>

definition no_rstrip :: string where
  "no_rstrip = [CHR 0x27] @ ''function'' @ [CHR 0x27] @ '' object has no attribute '' @
     [CHR 0x27] @ ''rstrip'' @ [CHR 0x27]"

definition flag_of :: "pyval \<Rightarrow> string" where
  "flag_of v = (case v of PyDecorator opt \<Rightarrow> opt_flag opt | _ \<Rightarrow> [])"

definition required_of :: "pyval \<Rightarrow> bool" where
  "required_of v = (case v of PyDecorator opt \<Rightarrow> opt_required opt | _ \<Rightarrow> False)"

definition built_options :: "pyval list" where
  "built_options =
     (let options = parse_command_line_options in
      [admin_user_name options, steam_url_option options, instance_name options,
       old_user_name options, new_user_name options, instance_cpu options, instance_mem options])"

section \<open>An example run\<close>

text \<open>
  A working directory with a config file for one Steam URL, a platform on which nothing
  fails and the instance is found running, and a user who confirms.
\<close>

definition example_section :: ini_section where
  "example_section =
     (\<lambda>_. Absent)
       (''refresh_token'' := Value ''rt-1'', ''client_id'' := Value ''cli'',
        ''token_endpoint'' := Value ''https://auth/token'')"

definition example_files :: "string \<Rightarrow> file_state" where
  "example_files path =
     (if path = ''h2oai.config''
      then Parsed (\<lambda>name. if name = ''https://steam'' then Some example_section else None)
      else Missing)"

definition example_instance :: sdk_instance where
  "example_instance = \<lparr>sdk_id = 7, sdk_status = PyStr ''running''\<rparr>"

definition example_env :: environment where
  "example_env =
     \<lparr>files = example_files,
      fails = (\<lambda>_. None),
      access_token = (\<lambda>_. PyStr ''tok''),
      found = (\<lambda>_. Some example_instance),
      answer = (\<lambda>_. True)\<rparr>"

definition example_config :: Config where
  "example_config = \<lparr>steam_url = ''https://steam'', config_section = example_section\<rparr>"

definition example_options :: options where
  "example_options =
     \<lparr>admin_user_name = PyStr ''admin'',
      steam_url_option = PyStr ''https://steam/'',
      instance_name = PyStr ''dai'',
      old_user_name = PyStr ''old'',
      new_user_name = PyStr ''new'',
      instance_cpu = PyNone,
      instance_mem = PyNone\<rparr>"

text \<open>Variations of the example: the login is refused, the user declines, the instance is unknown.\<close>

definition login_refused :: environment where
  "login_refused =
     example_env\<lparr>fails := (\<lambda>p. case last p of Login _ _ \<Rightarrow> Some ''401'' | _ \<Rightarrow> None)\<rparr>"

definition user_declines :: environment where
  "user_declines = example_env\<lparr>answer := (\<lambda>_. False)\<rparr>"

definition instance_unknown :: environment where
  "instance_unknown = example_env\<lparr>found := (\<lambda>_. None)\<rparr>"

text \<open>The instance is found stopped.\<close>

definition instance_at_rest :: environment where
  "instance_at_rest = example_env\<lparr>found := (\<lambda>_. Some \<lparr>sdk_id = 7, sdk_status = PyStr ''stopped''\<rparr>)\<rparr>"

section \<open>Facts about the building blocks\<close>

lemma dropWhile_replicate_append: "P c \<Longrightarrow> dropWhile P (replicate n c @ xs) = dropWhile P xs"
  by (induction n) simp_all

lemma rstrip_replicate: "rstrip (u @ replicate n c) [c] = rstrip u [c]"
  by (simp add: rstrip_def dropWhile_replicate_append)

lemma takeWhile_eq_replicate:
  "takeWhile (\<lambda>x. x = c) xs = replicate (length (takeWhile (\<lambda>x. x = c) xs)) c"
  by (induction xs) simp_all

lemma rstrip_decompose: "\<exists>k. s = rstrip s [c] @ replicate k c"
proof -
  let ?P = "\<lambda>x. x = c"
  have "rev s = takeWhile ?P (rev s) @ dropWhile ?P (rev s)"
    by simp
  then have "s = rev (dropWhile ?P (rev s)) @ rev (takeWhile ?P (rev s))"
    by (metis rev_append rev_rev_ident)
  moreover have "rev (takeWhile ?P (rev s)) = replicate (length (takeWhile ?P (rev s))) c"
    by (metis takeWhile_eq_replicate rev_replicate)
  ultimately show ?thesis
    by (auto simp: rstrip_def)
qed

lemma rstrip_no_trailing: "rstrip s [c] = [] \<or> last (rstrip s [c]) \<noteq> c"
proof (cases "dropWhile (\<lambda>x. x = c) (rev s) = []")
  case True
  then show ?thesis by (simp add: rstrip_def)
next
  case False
  then have "hd (dropWhile (\<lambda>x. x = c) (rev s)) \<noteq> c"
    using hd_dropWhile [of "\<lambda>x. x = c" "rev s"] by simp
  then show ?thesis
    by (simp add: rstrip_def last_rev)
qed

lemma Config_init_str:
  "Config_init fs (PyStr s) =
     (case load_config fs (rstrip s ''/'') of
        Inl e \<Rightarrow> Inl e
      | Inr sec \<Rightarrow> Inr \<lparr>steam_url = rstrip s ''/'', config_section = sec\<rparr>)"
  by (simp add: Config_init_def call_rstrip_def)

lemma steam_login_new_calls:
  "\<exists>ext. snd (steam_login env c h) = h @ ext \<and>
     (\<forall>url tok. Login url tok \<in> set ext \<longrightarrow> url = steam_url c)"
  by (auto simp: steam_login_def andThen_def evaluate_def closing_def remote_def
        token_provider_call_def Let_def split: option.splits sum.splits)

section \<open>C9: trailing slashes of the Steam URL\<close>

text \<open>
  C9. \<open>Config\<close> strips every trailing \<^verbatim>\<open>/\<close> from the Steam URL before it uses it:
  the stripped form is the argument without its run of trailing slashes and does not end in
  a slash; the section is looked up under the stripped form and \<open>steam_login\<close> logs in at
  the stripped form. Hence two URLs that differ only in the number of trailing slashes give
  the same \<open>Config\<close> (or the same exception), and the same run altogether.
\<close>

theorem trailing_slashes_make_no_difference:
  "Config_init fs (PyStr (u @ replicate n CHR ''/'')) =
   Config_init fs (PyStr (u @ replicate m CHR ''/'')) \<and>
   run_with env (opts\<lparr>steam_url_option := PyStr (u @ replicate n CHR ''/'')\<rparr>) =
   run_with env (opts\<lparr>steam_url_option := PyStr (u @ replicate m CHR ''/'')\<rparr>) \<and>
   (\<exists>k. s = rstrip s ''/'' @ replicate k CHR ''/'') \<and>
   (rstrip s ''/'' = [] \<or> last (rstrip s ''/'') \<noteq> CHR ''/'') \<and>
   (\<forall>c. Config_init fs (PyStr s) = Inr c \<longrightarrow>
        steam_url c = rstrip s ''/'' \<and> load_config fs (rstrip s ''/'') = Inr (config_section c)) \<and>
   (\<forall>c h url tok. Login url tok \<in> set (drop (length h) (snd (steam_login env c h))) \<longrightarrow>
        url = steam_url c)"
proof -
  have same: "Config_init fs' (PyStr (u @ replicate n CHR ''/'')) =
      Config_init fs' (PyStr (u @ replicate m CHR ''/''))" for fs'
    by (simp add: Config_init_str rstrip_replicate split: sum.splits)
  have run: "run_with env (opts\<lparr>steam_url_option := PyStr (u @ replicate n CHR ''/'')\<rparr>) =
      run_with env (opts\<lparr>steam_url_option := PyStr (u @ replicate m CHR ''/'')\<rparr>)"
    by (simp add: run_with_def try_block_def same split: sum.splits)
  have cfg: "steam_url c = rstrip s ''/'' \<and> load_config fs (rstrip s ''/'') = Inr (config_section c)"
    if "Config_init fs (PyStr s) = Inr c" for c
    using that by (auto simp: Config_init_str split: sum.splits)
  have login: "url = steam_url c"
    if "Login url tok \<in> set (drop (length h) (snd (steam_login env c h)))" for c h url tok
  proof -
    obtain ext where e: "snd (steam_login env c h) = h @ ext"
      and l: "\<forall>url tok. Login url tok \<in> set ext \<longrightarrow> url = steam_url c"
      using steam_login_new_calls [of env c h] by blast
    from that e have "Login url tok \<in> set ext" by simp
    with l show ?thesis by blast
  qed
  show ?thesis
    using same run rstrip_decompose [of s "CHR ''/''"] rstrip_no_trailing [of s "CHR ''/''"] cfg login
    by blast
qed

theorem trailing_slashes_witness:
  "Config_init example_files (PyStr ''https://steam//'') = Inr example_config \<and>
   Config_init example_files (PyStr ''https://steam'') = Inr example_config \<and>
   rstrip ''https://steam//'' ''/'' = ''https://steam'' \<and>
   load_config example_files ''https://steam'' = Inr example_section \<and>
   run_with example_env (example_options\<lparr>steam_url_option := PyStr ''https://steam//''\<rparr>) =
   run_with example_env (example_options\<lparr>steam_url_option := PyStr ''https://steam''\<rparr>)"
proof -
  have a: "Config_init example_files (PyStr ''https://steam//'') = Inr example_config"
    by (simp add: Config_init_def call_rstrip_def rstrip_def load_config_def example_files_def
          example_config_def)
  have r: "rstrip ''https://steam//'' ''/'' = ''https://steam''"
    by (simp add: rstrip_def)
  from trailing_slashes_make_no_difference
         [of example_files "''https://steam''" 2 0 example_env example_options "''https://steam//''"] a r
  show ?thesis
    by (simp add: numeral_2_eq_2 example_config_def)
qed

section \<open>C5: the configuration file\<close>

text \<open>
  C5. \<open>Config\<close>, built from a string, reads the file \<^verbatim>\<open>h2oai.config\<close> of the current
  working directory and no other file. When the file does not exist, \<open>ConfigException\<close> is
  raised; when \<^verbatim>\<open>configparser\<close> fails on it, that failure. When it is read and has a
  section under the Steam URL (stripped of its trailing slashes), the \<open>Config\<close> holds that
  section, and each of \<open>refresh_token\<close>, \<open>client_id\<close> and \<open>token_endpoint\<close> reads the option
  of its name from it: the value, \<^verbatim>\<open>None\<close> when the option is absent, and the exception of
  the interpolation when the stored value cannot be interpolated. A file without that
  section gives \<open>KeyError\<close>.
\<close>

theorem Config_reads_section_of_steam_url:
  "(fs ''h2oai.config'' = Missing \<longrightarrow>
      Config_init fs (PyStr url) = Inl (ConfigException ''Config file does not exist: h2oai.config'')) \<and>
   (\<forall>msg. fs ''h2oai.config'' = Unparsable msg \<longrightarrow>
      Config_init fs (PyStr url) = Inl (LibraryError msg)) \<and>
   (\<forall>config sec. fs ''h2oai.config'' = Parsed config \<and> config (rstrip url ''/'') = Some sec \<longrightarrow>
      (\<exists>c. Config_init fs (PyStr url) = Inr c \<and> steam_url c = rstrip url ''/'' \<and>
           config_section c = sec \<and>
           refresh_token c =
             (case sec ''refresh_token'' of
                Absent \<Rightarrow> Inr PyNone | Value v \<Rightarrow> Inr (PyStr v)
              | Uninterpolable msg \<Rightarrow> Inl (LibraryError msg)) \<and>
           client_id c =
             (case sec ''client_id'' of
                Absent \<Rightarrow> Inr PyNone | Value v \<Rightarrow> Inr (PyStr v)
              | Uninterpolable msg \<Rightarrow> Inl (LibraryError msg)) \<and>
           token_endpoint c =
             (case sec ''token_endpoint'' of
                Absent \<Rightarrow> Inr PyNone | Value v \<Rightarrow> Inr (PyStr v)
              | Uninterpolable msg \<Rightarrow> Inl (LibraryError msg)))) \<and>
   (\<forall>config. fs ''h2oai.config'' = Parsed config \<and> config (rstrip url ''/'') = None \<longrightarrow>
      Config_init fs (PyStr url) = Inl (KeyError (rstrip url ''/''))) \<and>
   (\<forall>fs'. fs' ''h2oai.config'' = fs ''h2oai.config'' \<longrightarrow> Config_init fs' v = Config_init fs v)"
  by (auto simp: Config_init_def call_rstrip_def load_config_def refresh_token_def client_id_def
        token_endpoint_def section_get_def split: pyval.splits)

theorem Config_reads_section_witness:
  "(example_files(''h2oai.config'' := Missing)) ''h2oai.config'' = Missing \<and>
   Config_init (example_files(''h2oai.config'' := Missing)) (PyStr ''https://steam/'') =
     Inl (ConfigException ''Config file does not exist: h2oai.config'') \<and>
   example_files ''h2oai.config'' =
     Parsed (\<lambda>name. if name = ''https://steam'' then Some example_section else None) \<and>
   rstrip ''https://steam/'' ''/'' = ''https://steam'' \<and>
   Config_init example_files (PyStr ''https://steam/'') = Inr example_config \<and>
   refresh_token example_config = Inr (PyStr ''rt-1'') \<and>
   client_id example_config = Inr (PyStr ''cli'') \<and>
   token_endpoint example_config = Inr (PyStr ''https://auth/token'') \<and>
   (\<exists>c. Config_init
          (\<lambda>_. Parsed (\<lambda>_. Some (\<lambda>_. Uninterpolable ''stray percent sign'')))
          (PyStr ''https://steam/'') = Inr c \<and>
        refresh_token c = Inl (LibraryError ''stray percent sign''))"
proof -
  let ?gone = "example_files(''h2oai.config'' := Missing)"
  let ?config = "\<lambda>name. if name = ''https://steam'' then Some example_section else None"
  let ?bad = "\<lambda>_ :: string. Uninterpolable ''stray percent sign''"
  have m: "?gone ''h2oai.config'' = Missing"
    by simp
  have miss: "Config_init ?gone (PyStr ''https://steam/'') =
      Inl (ConfigException ''Config file does not exist: h2oai.config'')"
    using Config_reads_section_of_steam_url [of ?gone "''https://steam/''", THEN conjunct1] m
    by blast
  have p: "example_files ''h2oai.config'' = Parsed ?config"
    by (simp add: example_files_def)
  have r: "rstrip ''https://steam/'' ''/'' = ''https://steam''"
    by (simp add: rstrip_def)
  have l: "?config (rstrip ''https://steam/'' ''/'') = Some example_section"
    by (simp add: r)
  obtain c where c: "Config_init example_files (PyStr ''https://steam/'') = Inr c"
      "steam_url c = rstrip ''https://steam/'' ''/''" "config_section c = example_section"
      "refresh_token c =
         (case example_section ''refresh_token'' of
            Absent \<Rightarrow> Inr PyNone | Value v \<Rightarrow> Inr (PyStr v)
          | Uninterpolable msg \<Rightarrow> Inl (LibraryError msg))"
      "client_id c =
         (case example_section ''client_id'' of
            Absent \<Rightarrow> Inr PyNone | Value v \<Rightarrow> Inr (PyStr v)
          | Uninterpolable msg \<Rightarrow> Inl (LibraryError msg))"
      "token_endpoint c =
         (case example_section ''token_endpoint'' of
            Absent \<Rightarrow> Inr PyNone | Value v \<Rightarrow> Inr (PyStr v)
          | Uninterpolable msg \<Rightarrow> Inl (LibraryError msg))"
    using Config_reads_section_of_steam_url
            [of example_files "''https://steam/''", THEN conjunct2, THEN conjunct2, THEN conjunct1] p l
    by blast
  have e: "c = example_config"
    using c(2,3) by (simp add: r example_config_def)
  have v: "example_section ''refresh_token'' = Value ''rt-1''"
      "example_section ''client_id'' = Value ''cli''"
      "example_section ''token_endpoint'' = Value ''https://auth/token''"
    by (simp_all add: example_section_def)
  have b: "(\<lambda>_ :: string. Parsed (\<lambda>_. Some ?bad)) ''h2oai.config'' = Parsed (\<lambda>_. Some ?bad)"
      "(\<lambda>_ :: string. Some ?bad) (rstrip ''https://steam/'' ''/'') = Some ?bad"
    by simp_all
  obtain d where d: "Config_init (\<lambda>_. Parsed (\<lambda>_. Some ?bad)) (PyStr ''https://steam/'') = Inr d"
      "refresh_token d =
         (case ?bad ''refresh_token'' of
            Absent \<Rightarrow> Inr PyNone | Value v \<Rightarrow> Inr (PyStr v)
          | Uninterpolable msg \<Rightarrow> Inl (LibraryError msg))"
    using Config_reads_section_of_steam_url
            [of "\<lambda>_. Parsed (\<lambda>_. Some ?bad)" "''https://steam/''",
             THEN conjunct2, THEN conjunct2, THEN conjunct1] b
    by blast
  from d have x: "\<exists>c. Config_init (\<lambda>_. Parsed (\<lambda>_. Some ?bad)) (PyStr ''https://steam/'') = Inr c \<and>
        refresh_token c = Inl (LibraryError ''stray percent sign'')"
    by simp
  show ?thesis
    using m miss p r c(1,4,5,6) x by (simp add: e v)
qed

section \<open>C7: looking the instance up\<close>

text \<open>
  C7. \<open>get_instance\<close> issues one lookup for the given name and owner. It raises
  \<open>InstanceNotFoundException\<close> exactly when the lookup returns \<^verbatim>\<open>None\<close> (it does not fail
  and finds nothing); a failure of the lookup itself is passed on as it is; and an instance
  that is found comes back wrapped in an \<open>Instance\<close> whose \<open>id\<close> and \<open>status\<close> are those of
  the wrapped object.
\<close>

theorem get_instance_not_found_exactly_when_none:
  "\<exists>r. get_instance env name ow h = (r, h @ [GetInstance name ow]) \<and>
      ((\<exists>msg. r = Inl (InstanceNotFoundException msg)) \<longleftrightarrow>
         (fails env (h @ [GetInstance name ow]) = None \<and> found env (h @ [GetInstance name ow]) = None)) \<and>
      (\<forall>msg. fails env (h @ [GetInstance name ow]) = Some msg \<longrightarrow> r = Inl (LibraryError msg)) \<and>
      (\<forall>inst. fails env (h @ [GetInstance name ow]) = None \<and>
              found env (h @ [GetInstance name ow]) = Some inst \<longrightarrow>
           (\<exists>i. r = Inr i \<and> wrapped i = inst \<and> Instance_id i = sdk_id inst \<and>
                Instance_status i = sdk_status inst))"
  by (auto simp: get_instance_def Let_def Instance_id_def Instance_status_def split: option.splits)

theorem get_instance_witness:
  "fails example_env [GetInstance (PyStr ''dai'') (PyStr ''old'')] = None \<and>
   found example_env [GetInstance (PyStr ''dai'') (PyStr ''old'')] = Some example_instance \<and>
   get_instance example_env (PyStr ''dai'') (PyStr ''old'') [] =
     (Inr \<lparr>wrapped = example_instance\<rparr>, [GetInstance (PyStr ''dai'') (PyStr ''old'')]) \<and>
   Instance_id \<lparr>wrapped = example_instance\<rparr> = 7 \<and>
   Instance_status \<lparr>wrapped = example_instance\<rparr> = PyStr ''running'' \<and>
   found (example_env\<lparr>found := (\<lambda>_. None)\<rparr>) [GetInstance (PyStr ''dai'') (PyStr ''old'')] = None \<and>
   (\<exists>msg. get_instance (example_env\<lparr>found := (\<lambda>_. None)\<rparr>) (PyStr ''dai'') (PyStr ''old'') [] =
     (Inl (InstanceNotFoundException msg), [GetInstance (PyStr ''dai'') (PyStr ''old'')])) \<and>
   get_instance (example_env\<lparr>fails := (\<lambda>_. Some ''503'')\<rparr>) (PyStr ''dai'') (PyStr ''old'') [] =
     (Inl (LibraryError ''503''), [GetInstance (PyStr ''dai'') (PyStr ''old'')])"
proof -
  let ?g = "GetInstance (PyStr ''dai'') (PyStr ''old'')"
  let ?none = "example_env\<lparr>found := (\<lambda>_. None)\<rparr>"
  let ?down = "example_env\<lparr>fails := (\<lambda>_. Some ''503'')\<rparr>"
  have a: "fails example_env [?g] = None" "found example_env [?g] = Some example_instance"
    by (simp_all add: example_env_def)
  have b: "fails ?none [?g] = None" "found ?none [?g] = None"
    by (simp_all add: example_env_def)
  have c: "fails ?down [?g] = Some ''503''"
    by simp
  have i: "Instance_id \<lparr>wrapped = example_instance\<rparr> = 7"
      "Instance_status \<lparr>wrapped = example_instance\<rparr> = PyStr ''running''"
    by (simp_all add: Instance_id_def Instance_status_def example_instance_def)
  have 1: "get_instance example_env (PyStr ''dai'') (PyStr ''old'') [] =
      (Inr \<lparr>wrapped = example_instance\<rparr>, [?g])"
    using get_instance_not_found_exactly_when_none [of example_env "PyStr ''dai''" "PyStr ''old''" "[]"] a
    by auto
  have 2: "\<exists>msg. get_instance ?none (PyStr ''dai'') (PyStr ''old'') [] =
      (Inl (InstanceNotFoundException msg), [?g])"
    using get_instance_not_found_exactly_when_none [of ?none "PyStr ''dai''" "PyStr ''old''" "[]"] b
    by auto
  have 3: "get_instance ?down (PyStr ''dai'') (PyStr ''old'') [] = (Inl (LibraryError ''503''), [?g])"
    using get_instance_not_found_exactly_when_none [of ?down "PyStr ''dai''" "PyStr ''old''" "[]"] c
    by auto
  show ?thesis
    using a b(2) i 1 2 3 by simp
qed

section \<open>C8: the token provider is closed\<close>

text \<open>
  C8. \<open>steam_login\<close> closes the token provider on every path on which one was built. When
  reading one of the three config fields raises, or the constructor raises, no provider
  exists: there is nothing to close and nothing else is called. Otherwise \<open>close\<close> is the
  last call of \<open>steam_login\<close>: after the token fetch when that raises (the login is then
  never called), and after the login otherwise, whether the login returns or raises. The
  login is the only call made between the token fetch and the close.
\<close>

theorem steam_login_closes_token_provider:
  "(\<forall>e. refresh_token config = Inl e \<or>
        (\<exists>rt. refresh_token config = Inr rt \<and> client_id config = Inl e) \<or>
        (\<exists>rt cid. refresh_token config = Inr rt \<and> client_id config = Inr cid \<and>
                  token_endpoint config = Inl e) \<longrightarrow>
      steam_login env config h = (Inl e, h)) \<and>
   (\<forall>rt cid te.
      refresh_token config = Inr rt \<and> client_id config = Inr cid \<and> token_endpoint config = Inr te \<longrightarrow>
      (let tp = TokenProvider rt cid te;
           h1 = h @ [tp];
           h2 = h1 @ [TokenProviderCall];
           h3 = h2 @ [Login (steam_url config) (access_token env h2)];
           r = steam_login env config h
       in (fails env h1 \<noteq> None \<longrightarrow> snd r = h1 \<and> (\<exists>e. fst r = Inl e)) \<and>
          (fails env h1 = None \<longrightarrow>
             last (snd r) = TokenProviderClose \<and>
             (snd r = h2 @ [TokenProviderClose] \<or> snd r = h3 @ [TokenProviderClose])) \<and>
          (fails env h1 = None \<and> fails env h2 \<noteq> None \<longrightarrow>
             snd r = h2 @ [TokenProviderClose] \<and> (\<exists>e. fst r = Inl e)) \<and>
          (fails env h1 = None \<and> fails env h2 = None \<longrightarrow> snd r = h3 @ [TokenProviderClose]) \<and>
          (fails env h1 = None \<and> fails env h2 = None \<and> fails env h3 = None \<and>
           fails env (h3 @ [TokenProviderClose]) = None \<longrightarrow> fst r = Inr ()) \<and>
          (fails env h1 = None \<and> fails env h2 = None \<and> fails env h3 \<noteq> None \<longrightarrow>
             (\<exists>e. fst r = Inl e))))"
  by (auto simp: steam_login_def andThen_def evaluate_def closing_def remote_def
        token_provider_call_def Let_def split: option.splits)

theorem steam_login_closes_witness:
  "refresh_token example_config = Inr (PyStr ''rt-1'') \<and>
   client_id example_config = Inr (PyStr ''cli'') \<and>
   token_endpoint example_config = Inr (PyStr ''https://auth/token'') \<and>
   steam_login example_env example_config [] =
     (Inr (),
      [TokenProvider (PyStr ''rt-1'') (PyStr ''cli'') (PyStr ''https://auth/token''),
       TokenProviderCall, Login ''https://steam'' (PyStr ''tok''), TokenProviderClose]) \<and>
   steam_login login_refused example_config [] =
     (Inl (LibraryError ''401''),
      [TokenProvider (PyStr ''rt-1'') (PyStr ''cli'') (PyStr ''https://auth/token''),
       TokenProviderCall, Login ''https://steam'' (PyStr ''tok''), TokenProviderClose]) \<and>
   refresh_token (example_config\<lparr>config_section := (\<lambda>_. Uninterpolable ''stray percent sign'')\<rparr>) =
     Inl (LibraryError ''stray percent sign'') \<and>
   steam_login example_env
     (example_config\<lparr>config_section := (\<lambda>_. Uninterpolable ''stray percent sign'')\<rparr>) [] =
     (Inl (LibraryError ''stray percent sign''), [])"
proof -
  let ?bad = "example_config\<lparr>config_section := (\<lambda>_. Uninterpolable ''stray percent sign'')\<rparr>"
  have f: "fails example_env = (\<lambda>_. None)" "access_token example_env = (\<lambda>_. PyStr ''tok'')"
      "access_token login_refused = (\<lambda>_. PyStr ''tok'')"
      "fails login_refused = (\<lambda>p. case last p of Login _ _ \<Rightarrow> Some ''401'' | _ \<Rightarrow> None)"
    by (simp_all add: example_env_def login_refused_def)
  have c: "refresh_token example_config = Inr (PyStr ''rt-1'')"
      "client_id example_config = Inr (PyStr ''cli'')"
      "token_endpoint example_config = Inr (PyStr ''https://auth/token'')"
    by (simp_all add: example_config_def example_section_def refresh_token_def client_id_def
          token_endpoint_def section_get_def)
  have u: "steam_url example_config = ''https://steam''"
    by (simp add: example_config_def)
  have b: "refresh_token ?bad = Inl (LibraryError ''stray percent sign'')"
    by (simp add: refresh_token_def section_get_def)
  note ok = steam_login_closes_token_provider
      [of example_config example_env "[]", THEN conjunct2, rule_format, OF conjI [OF c(1) conjI [OF c(2) c(3)]]]
  note refused = steam_login_closes_token_provider
      [of example_config login_refused "[]", THEN conjunct2, rule_format, OF conjI [OF c(1) conjI [OF c(2) c(3)]]]
  have 1: "snd (steam_login example_env example_config []) =
       [TokenProvider (PyStr ''rt-1'') (PyStr ''cli'') (PyStr ''https://auth/token''),
       TokenProviderCall, Login ''https://steam'' (PyStr ''tok''), TokenProviderClose]"
     "fst (steam_login example_env example_config []) = Inr ()"
    using ok by (simp_all add: Let_def f u)
  have 2: "snd (steam_login login_refused example_config []) =
       [TokenProvider (PyStr ''rt-1'') (PyStr ''cli'') (PyStr ''https://auth/token''),
       TokenProviderCall, Login ''https://steam'' (PyStr ''tok''), TokenProviderClose]"
    using refused by (simp add: Let_def f u)
  have 3: "fst (steam_login login_refused example_config []) = Inl (LibraryError ''401'')"
    by (simp add: steam_login_def andThen_def evaluate_def closing_def remote_def
          token_provider_call_def Let_def f c u)
  have 4: "steam_login example_env ?bad [] = (Inl (LibraryError ''stray percent sign''), [])"
    using steam_login_closes_token_provider [of ?bad example_env "[]", THEN conjunct1] b
    by blast
  show ?thesis
    using c b 1 2 3 4 by (simp add: prod_eq_iff)
qed

section \<open>Facts about whole runs\<close>

lemmas run_defs = handle_def andThen_def evaluate_def steam_login_def closing_def remote_def
     token_provider_call_def
     click_confirm_def get_instance_def set_instance_owner_def Instance_stop_def Instance_start_def
     transfer_entities_def Instance_connect_def logger_info_def done_ok_def Instance_id_def
     Instance_status_def Let_def

lemma handle_extends: "\<exists>ext. snd (handle env config a n old new cpu mem h) = h @ ext"
  unfolding run_defs
  by (simp split: option.splits sum.splits)

lemmas example_defs = example_env_def example_config_def example_section_def example_instance_def
  example_files_def login_refused_def user_declines_def instance_unknown_def
  refresh_token_def client_id_def token_endpoint_def section_get_def

lemmas config_defs = Config_init_def call_rstrip_def rstrip_def load_config_def

section \<open>C6: no instance operation without confirmation\<close>

lemma handle_confirmation_scan:
  assumes "handle env config a n old new cpu mem h = (r, h @ ext)"
  shows "list_all (\<lambda>c. \<not> is_instance_operation c) (takeWhile (\<lambda>c. c \<noteq> Confirm (confirm_text n old new)) ext) \<and>
      (list_ex is_instance_operation ext \<longrightarrow>
         answer env (h @ takeWhile (\<lambda>c. c \<noteq> Confirm (confirm_text n old new)) ext @ [Confirm (confirm_text n old new)])) \<and>
      (list_ex (\<lambda>c. c = Confirm (confirm_text n old new)) ext \<and>
       \<not> answer env (h @ takeWhile (\<lambda>c. c \<noteq> Confirm (confirm_text n old new)) ext @ [Confirm (confirm_text n old new)]) \<longrightarrow>
         r = Inl Abort \<and> ext = takeWhile (\<lambda>c. c \<noteq> Confirm (confirm_text n old new)) ext @ [Confirm (confirm_text n old new)])"
  using assms
  unfolding run_defs
  by (auto simp: is_instance_operation_def split: option.splits if_splits sum.splits)

lemma run_confirmation_scan:
  assumes "try_block env opts [] = (r, ext)"
  shows "list_all (\<lambda>c. \<not> is_instance_operation c)
           (takeWhile (\<lambda>c. c \<noteq> Confirm (confirm_text (instance_name opts) (old_user_name opts) (new_user_name opts)))
              (calls (top_level (r, ext)))) \<and>
      (list_ex is_instance_operation (calls (top_level (r, ext))) \<longrightarrow>
         answer env (takeWhile (\<lambda>c. c \<noteq> Confirm (confirm_text (instance_name opts) (old_user_name opts) (new_user_name opts)))
              (calls (top_level (r, ext))) @ [Confirm (confirm_text (instance_name opts) (old_user_name opts) (new_user_name opts))]))"
  using assms
  unfolding try_block_def top_level_def run_defs
  by (auto simp: is_instance_operation_def split: option.splits if_splits sum.splits)

text \<open>
  C6. In every call of \<open>handle\<close>, and in every run of the callback, the calls issued before
  the confirmation prompt contain no instance operation (lookup, owner reassignment, stop,
  start, connect, entity transfer), and an instance operation is issued at all only if the
  prompt was answered affirmatively. When the prompt is answered otherwise, \<open>handle\<close> raises
  \<open>Abort\<close> and the prompt is its last call.
\<close>

theorem instance_operations_need_confirmation:
  "(\<forall>r h'. handle env config a n old new cpu mem h = (r, h') \<longrightarrow>
      (\<exists>ext before. h' = h @ ext \<and>
         before = takeWhile (\<lambda>c. c \<noteq> Confirm (confirm_text n old new)) ext \<and>
         (\<forall>c \<in> set before. \<not> is_instance_operation c) \<and>
         ((\<exists>c \<in> set ext. is_instance_operation c) \<longrightarrow>
            answer env (h @ before @ [Confirm (confirm_text n old new)])) \<and>
         (Confirm (confirm_text n old new) \<in> set ext \<and>
          \<not> answer env (h @ before @ [Confirm (confirm_text n old new)]) \<longrightarrow>
            r = Inl Abort \<and> ext = before @ [Confirm (confirm_text n old new)]))) \<and>
   (\<exists>before. before = takeWhile (\<lambda>c. c \<noteq> Confirm (confirm_text (instance_name opts) (old_user_name opts) (new_user_name opts)))
                  (calls (run_with env opts)) \<and>
      (\<forall>c \<in> set before. \<not> is_instance_operation c) \<and>
      ((\<exists>c \<in> set (calls (run_with env opts)). is_instance_operation c) \<longrightarrow>
         answer env (before @ [Confirm (confirm_text (instance_name opts) (old_user_name opts) (new_user_name opts))])))"
proof (intro conjI allI impI)
  fix r h'
  assume run: "handle env config a n old new cpu mem h = (r, h')"
  obtain ext where ext: "h' = h @ ext"
    using handle_extends [of env config a n old new cpu mem h] run by auto
  from handle_confirmation_scan [OF run [unfolded ext]] ext
  show "\<exists>ext before. h' = h @ ext \<and>
         before = takeWhile (\<lambda>c. c \<noteq> Confirm (confirm_text n old new)) ext \<and>
         (\<forall>c \<in> set before. \<not> is_instance_operation c) \<and>
         ((\<exists>c \<in> set ext. is_instance_operation c) \<longrightarrow>
            answer env (h @ before @ [Confirm (confirm_text n old new)])) \<and>
         (Confirm (confirm_text n old new) \<in> set ext \<and>
          \<not> answer env (h @ before @ [Confirm (confirm_text n old new)]) \<longrightarrow>
            r = Inl Abort \<and> ext = before @ [Confirm (confirm_text n old new)])"
    by (simp add: list_all_iff list_ex_iff)
next
  obtain r ext where b: "try_block env opts [] = (r, ext)"
    by (cases "try_block env opts []")
  from run_confirmation_scan [OF b]
  show "\<exists>before. before = takeWhile (\<lambda>c. c \<noteq> Confirm (confirm_text (instance_name opts) (old_user_name opts) (new_user_name opts)))
                  (calls (run_with env opts)) \<and>
      (\<forall>c \<in> set before. \<not> is_instance_operation c) \<and>
      ((\<exists>c \<in> set (calls (run_with env opts)). is_instance_operation c) \<longrightarrow>
         answer env (before @ [Confirm (confirm_text (instance_name opts) (old_user_name opts) (new_user_name opts))]))"
    by (simp add: run_with_def b list_all_iff list_ex_iff)
qed

theorem instance_operations_need_confirmation_witness:
  "handle user_declines example_config (PyStr ''admin'') (PyStr ''dai'') (PyStr ''old'') (PyStr ''new'') PyNone PyNone [] =
     (Inl Abort,
      [TokenProvider (PyStr ''rt-1'') (PyStr ''cli'') (PyStr ''https://auth/token''), TokenProviderCall,
       Login ''https://steam'' (PyStr ''tok''), TokenProviderClose,
       Confirm (confirm_text (PyStr ''dai'') (PyStr ''old'') (PyStr ''new''))]) \<and>
   \<not> answer user_declines
      [TokenProvider (PyStr ''rt-1'') (PyStr ''cli'') (PyStr ''https://auth/token''), TokenProviderCall,
       Login ''https://steam'' (PyStr ''tok''), TokenProviderClose,
       Confirm (confirm_text (PyStr ''dai'') (PyStr ''old'') (PyStr ''new''))] \<and>
   list_ex is_instance_operation
     (snd (handle example_env example_config (PyStr ''admin'') (PyStr ''dai'') (PyStr ''old'') (PyStr ''new'') PyNone PyNone [])) \<and>
   answer example_env
      [TokenProvider (PyStr ''rt-1'') (PyStr ''cli'') (PyStr ''https://auth/token''), TokenProviderCall,
       Login ''https://steam'' (PyStr ''tok''), TokenProviderClose,
       Confirm (confirm_text (PyStr ''dai'') (PyStr ''old'') (PyStr ''new''))]"
proof -
  have d: "handle user_declines example_config (PyStr ''admin'') (PyStr ''dai'') (PyStr ''old'') (PyStr ''new'') PyNone PyNone [] =
     (Inl Abort,
      [TokenProvider (PyStr ''rt-1'') (PyStr ''cli'') (PyStr ''https://auth/token''), TokenProviderCall,
       Login ''https://steam'' (PyStr ''tok''), TokenProviderClose,
       Confirm (confirm_text (PyStr ''dai'') (PyStr ''old'') (PyStr ''new''))])"
    by (simp add: run_defs example_defs)
  have e: "list_ex is_instance_operation
     (snd (handle example_env example_config (PyStr ''admin'') (PyStr ''dai'') (PyStr ''old'') (PyStr ''new'') PyNone PyNone []))"
    by (simp add: run_defs example_defs is_instance_operation_def)
  have a: "\<not> answer user_declines p" "answer example_env p" for p
    by (simp_all add: example_defs)
  note instance_operations_need_confirmation
         [of user_declines example_config "PyStr ''admin''" "PyStr ''dai''" "PyStr ''old''" "PyStr ''new''"
             PyNone PyNone "[]" example_options]
  then show ?thesis
    using d e a by blast
qed

section \<open>C3: exceptions end the run at the top-level handler\<close>

lemma try_block_raise_ends_run:
  assumes "try_block env opts [] = (r, h')"
      and "prefix p h'" and "p \<noteq> []" and "raises env p"
  shows "(\<exists>e. r = Inl e) \<and> (h' = p \<or> h' = p @ [TokenProviderClose])"
  using assms
  unfolding try_block_def run_defs
  by (auto simp: prefix_Cons raises_def split: option.splits if_splits sum.splits)

lemma try_block_not_found:
  assumes "try_block env opts [] = (r, h')"
      and "prefix p h'" and "p \<noteq> []" and "last p = GetInstance n ow"
      and "fails env p = None" and "found env p = None"
  shows "\<exists>msg. r = Inl (InstanceNotFoundException msg) \<and> h' = p"
  using assms
  unfolding try_block_def run_defs
  by (auto simp: prefix_Cons split: option.splits if_splits sum.splits)

lemma try_block_library_error:
  assumes "try_block env opts [] = (r, h')"
      and "prefix p h'" and "p \<noteq> []" and "fails env p = Some m"
      and "\<forall>t. last p \<noteq> Confirm t" and "\<forall>s. last p \<noteq> LogInfo s"
  shows "\<exists>m'. r = Inl (LibraryError m')"
  using assms
  unfolding try_block_def run_defs
  by (auto simp: prefix_Cons split: option.splits if_splits sum.splits)

lemma try_block_config_error:
  "Config_init (files env) (steam_url_option opts) = Inl e \<Longrightarrow> try_block env opts h = (Inl e, h)"
  by (simp add: try_block_def)

text \<open>
  C3. An exception raised in the \<^verbatim>\<open>try\<close> block reaches the handler of
  \<open>instance_transfer\<close>: the traceback of that exception is logged as the last call and the
  exit code is 1; without an exception the exit code is 0 and nothing is logged as an error.
  This holds for a failing \<open>Config\<close> (a missing file among others), for an instance that is
  not found, and for the failure of any library call. Nothing is retried or recovered: the
  call that raises is the last call of the \<^verbatim>\<open>try\<close> block, but for the scoped close of the
  token provider.
\<close>

theorem exceptions_reach_the_top_level_handler:
  "(\<forall>e h'. try_block env opts [] = (Inl e, h') \<longrightarrow>
       run_with env opts = \<lparr>exit_code = 1, calls = h' @ [LogError e]\<rparr>) \<and>
   (\<forall>h'. try_block env opts [] = (Inr (), h') \<longrightarrow>
       run_with env opts = \<lparr>exit_code = 0, calls = h'\<rparr>) \<and>
   (\<forall>e. Config_init (files env) (steam_url_option opts) = Inl e \<longrightarrow>
       run_with env opts = \<lparr>exit_code = 1, calls = [LogError e]\<rparr>) \<and>
   (\<forall>p. prefix p (snd (try_block env opts [])) \<and> p \<noteq> [] \<and> raises env p \<longrightarrow>
       (\<exists>e. run_with env opts = \<lparr>exit_code = 1, calls = p @ [LogError e]\<rparr> \<or>
            run_with env opts = \<lparr>exit_code = 1, calls = p @ [TokenProviderClose, LogError e]\<rparr>)) \<and>
   (\<forall>p n ow. prefix p (snd (try_block env opts [])) \<and> p \<noteq> [] \<and> last p = GetInstance n ow \<and>
        fails env p = None \<and> found env p = None \<longrightarrow>
       (\<exists>msg. run_with env opts =
          \<lparr>exit_code = 1, calls = p @ [LogError (InstanceNotFoundException msg)]\<rparr>)) \<and>
   (\<forall>p m. prefix p (snd (try_block env opts [])) \<and> p \<noteq> [] \<and> fails env p = Some m \<and>
        (\<forall>t. last p \<noteq> Confirm t) \<and> (\<forall>s. last p \<noteq> LogInfo s) \<longrightarrow>
       (\<exists>m'. last (calls (run_with env opts)) = LogError (LibraryError m') \<and>
             exit_code (run_with env opts) = 1))"
proof -
  obtain r h' where b: "try_block env opts [] = (r, h')"
    by (cases "try_block env opts []")
  have 1: "run_with env opts = \<lparr>exit_code = 1, calls = h'' @ [LogError e]\<rparr>"
    if "try_block env opts [] = (Inl e, h'')" for e h''
    using that by (simp add: run_with_def top_level_def)
  have 2: "run_with env opts = \<lparr>exit_code = 0, calls = h''\<rparr>"
    if "try_block env opts [] = (Inr (), h'')" for h''
    using that by (simp add: run_with_def top_level_def)
  have 3: "run_with env opts = \<lparr>exit_code = 1, calls = [LogError e]\<rparr>"
    if "Config_init (files env) (steam_url_option opts) = Inl e" for e
    using try_block_config_error [OF that, of "[]"] by (simp add: run_with_def top_level_def)
  have 4: "\<exists>e. run_with env opts = \<lparr>exit_code = 1, calls = p @ [LogError e]\<rparr> \<or>
            run_with env opts = \<lparr>exit_code = 1, calls = p @ [TokenProviderClose, LogError e]\<rparr>"
    if "prefix p (snd (try_block env opts []))" "p \<noteq> []" "raises env p" for p
  proof -
    from that(1) have "prefix p h'" by (simp add: b)
    from try_block_raise_ends_run [OF b this that(2,3)]
    obtain e where "r = Inl e" "h' = p \<or> h' = p @ [TokenProviderClose]" by blast
    then show ?thesis using 1 [of e h'] b by auto
  qed
  have 5: "\<exists>msg. run_with env opts =
          \<lparr>exit_code = 1, calls = p @ [LogError (InstanceNotFoundException msg)]\<rparr>"
    if "prefix p (snd (try_block env opts []))" "p \<noteq> []" "last p = GetInstance n ow"
       "fails env p = None" "found env p = None" for p n ow
  proof -
    from that(1) have p: "prefix p h'" by (simp add: b)
    from try_block_not_found [OF b p that(2,3,4,5)]
    obtain msg where r: "r = Inl (InstanceNotFoundException msg)" and "h' = p" by blast
    then show ?thesis using 1 [of "InstanceNotFoundException msg" h'] b r by auto
  qed
  have 6: "\<exists>m'. last (calls (run_with env opts)) = LogError (LibraryError m') \<and>
             exit_code (run_with env opts) = 1"
    if "prefix p (snd (try_block env opts []))" "p \<noteq> []" "fails env p = Some m"
       "\<forall>t. last p \<noteq> Confirm t" "\<forall>s. last p \<noteq> LogInfo s" for p m
  proof -
    from that(1) have p: "prefix p h'" by (simp add: b)
    from try_block_library_error [OF b p that(2,3,4,5)]
    obtain m' where "r = Inl (LibraryError m')" by blast
    then show ?thesis using 1 [of "LibraryError m'" h'] b by auto
  qed
  show ?thesis
    using 1 2 3 4 5 6 by blast
qed

theorem exceptions_reach_the_top_level_handler_witness:
  "Config_init (files (example_env\<lparr>files := (\<lambda>_. Missing)\<rparr>)) (steam_url_option example_options) =
     Inl (ConfigException ''Config file does not exist: h2oai.config'') \<and>
   run_with (example_env\<lparr>files := (\<lambda>_. Missing)\<rparr>) example_options =
     \<lparr>exit_code = 1, calls = [LogError (ConfigException ''Config file does not exist: h2oai.config'')]\<rparr> \<and>
   run_with instance_unknown example_options =
     \<lparr>exit_code = 1,
      calls = [TokenProvider (PyStr ''rt-1'') (PyStr ''cli'') (PyStr ''https://auth/token''), TokenProviderCall,
               Login ''https://steam'' (PyStr ''tok''), TokenProviderClose,
               Confirm (confirm_text (PyStr ''dai'') (PyStr ''old'') (PyStr ''new'')),
               GetInstance (PyStr ''dai'') (PyStr ''old''),
               LogError (InstanceNotFoundException
                 (''Instance '' @ quoted (PyStr ''dai'') @ '' belonging to '' @ quoted (PyStr ''old'') @
                  '' does not exist.''))]\<rparr> \<and>
   run_with login_refused example_options =
     \<lparr>exit_code = 1,
      calls = [TokenProvider (PyStr ''rt-1'') (PyStr ''cli'') (PyStr ''https://auth/token''), TokenProviderCall,
               Login ''https://steam'' (PyStr ''tok''), TokenProviderClose,
               LogError (LibraryError ''401'')]\<rparr> \<and>
   fst (try_block example_env example_options []) = Inr () \<and>
   exit_code (run_with example_env example_options) = 0"
proof -
  let ?gone = "example_env\<lparr>files := (\<lambda>_. Missing)\<rparr>"
  have c: "Config_init (files ?gone) (steam_url_option example_options) =
     Inl (ConfigException ''Config file does not exist: h2oai.config'')"
    by (simp add: config_defs example_options_def)
  have a: "run_with ?gone example_options =
     \<lparr>exit_code = 1, calls = [LogError (ConfigException ''Config file does not exist: h2oai.config'')]\<rparr>"
    using exceptions_reach_the_top_level_handler [of ?gone example_options] c by blast
  have k: "Config_init example_files (steam_url_option example_options) = Inr example_config"
    by (simp add: config_defs example_options_def example_files_def example_config_def)
  have f: "files instance_unknown = example_files" "files login_refused = example_files"
      "files example_env = example_files"
    by (simp_all add: example_defs)
  have u: "run_with instance_unknown example_options =
     \<lparr>exit_code = 1,
      calls = [TokenProvider (PyStr ''rt-1'') (PyStr ''cli'') (PyStr ''https://auth/token''), TokenProviderCall,
               Login ''https://steam'' (PyStr ''tok''), TokenProviderClose,
               Confirm (confirm_text (PyStr ''dai'') (PyStr ''old'') (PyStr ''new'')),
               GetInstance (PyStr ''dai'') (PyStr ''old''),
               LogError (InstanceNotFoundException
                 (''Instance '' @ quoted (PyStr ''dai'') @ '' belonging to '' @ quoted (PyStr ''old'') @
                  '' does not exist.''))]\<rparr>"
    by (simp add: run_with_def try_block_def top_level_def f k)
       (simp add: run_defs example_defs example_options_def)
  have l: "run_with login_refused example_options =
     \<lparr>exit_code = 1,
      calls = [TokenProvider (PyStr ''rt-1'') (PyStr ''cli'') (PyStr ''https://auth/token''), TokenProviderCall,
               Login ''https://steam'' (PyStr ''tok''), TokenProviderClose,
               LogError (LibraryError ''401'')]\<rparr>"
    by (simp add: run_with_def try_block_def top_level_def f k)
       (simp add: run_defs example_defs example_options_def)
  have s: "fst (try_block example_env example_options []) = Inr ()"
    by (simp add: try_block_def f k) (simp add: run_defs example_defs example_options_def)
  have z: "exit_code (run_with example_env example_options) = 0"
    using exceptions_reach_the_top_level_handler [of example_env example_options] s
    by (cases "try_block example_env example_options []") auto
  show ?thesis
    using c a u l s z by blast
qed

section \<open>Calls of \<open>handle\<close> that return\<close>

lemma andThen_Inr:
  "andThen m f h = (Inr y, h') \<longleftrightarrow> (\<exists>x h1. m h = (Inr x, h1) \<and> f x h1 = (Inr y, h'))"
  by (auto simp: andThen_def split: prod.splits sum.splits)

lemma remote_Inr: "remote env c h = (Inr u, h') \<longleftrightarrow> fails env (h @ [c]) = None \<and> h' = h @ [c]"
  by (auto simp: remote_def Let_def split: option.splits)

lemma token_provider_call_Inr:
  "token_provider_call env h = (Inr tok, h') \<longleftrightarrow>
     fails env (h @ [TokenProviderCall]) = None \<and> h' = h @ [TokenProviderCall] \<and>
     tok = access_token env h'"
  by (auto simp: token_provider_call_def Let_def split: option.splits)

lemma closing_Inr:
  "closing env body h = (Inr x, h') \<longleftrightarrow>
     (\<exists>h1. body h = (Inr x, h1) \<and> fails env (h1 @ [TokenProviderClose]) = None \<and>
           h' = h1 @ [TokenProviderClose])"
  by (auto simp: closing_def remote_def Let_def split: prod.splits sum.splits option.splits)

lemma click_confirm_Inr:
  "click_confirm env t h = (Inr u, h') \<longleftrightarrow> answer env (h @ [Confirm t]) \<and> h' = h @ [Confirm t]"
  by (auto simp: click_confirm_def Let_def)

lemma get_instance_Inr:
  "get_instance env n ow h = (Inr i, h') \<longleftrightarrow>
     fails env (h @ [GetInstance n ow]) = None \<and>
     found env (h @ [GetInstance n ow]) = Some (wrapped i) \<and> h' = h @ [GetInstance n ow]"
  by (auto simp: get_instance_def Let_def split: option.splits)

lemma done_ok_Inr: "done_ok h = (Inr u, h') \<longleftrightarrow> h' = h"
  by (auto simp: done_ok_def)

lemma logger_info_Inr: "logger_info m h = (Inr u, h') \<longleftrightarrow> h' = h @ [LogInfo m]"
  by (auto simp: logger_info_def)

lemma evaluate_Inr: "evaluate r h = (Inr x, h') \<longleftrightarrow> r = Inr x \<and> h' = h"
  by (auto simp: evaluate_def)

lemmas Inr_simps = andThen_Inr click_confirm_Inr get_instance_Inr remote_Inr
  done_ok_Inr logger_info_Inr token_provider_call_Inr closing_Inr evaluate_Inr

lemma handle_success:
  assumes "handle env config a n old new cpu mem h = (Inr (), h')"
  shows "\<exists>inst tok rt cid te.
     refresh_token config = Inr rt \<and> client_id config = Inr cid \<and> token_endpoint config = Inr te \<and>
     tok = access_token env (h @ [TokenProvider rt cid te, TokenProviderCall]) \<and>
     found env
       (h @ [TokenProvider rt cid te, TokenProviderCall, Login (steam_url config) tok,
             TokenProviderClose, Confirm (confirm_text n old new), GetInstance n old]) = Some inst \<and>
     h' = h @ completed_calls rt cid te (steam_url config) a n old new cpu mem tok inst"
  using assms
  by (auto simp: handle_def steam_login_def Inr_simps set_instance_owner_def Instance_stop_def
        Instance_start_def transfer_entities_def Instance_connect_def Instance_id_def
        Instance_status_def completed_calls_def split: if_splits)

lemma handle_nothing_fails:
  assumes "refresh_token config = Inr rt" and "client_id config = Inr cid"
      and "token_endpoint config = Inr te"
      and "\<forall>p. fails env p = None" and "\<forall>p. answer env p" and "\<forall>p. found env p = Some inst"
  shows "fst (handle env config a n old new cpu mem h) = Inr ()"
  using assms
  by (simp add: handle_def andThen_def evaluate_def steam_login_def closing_def remote_def
     token_provider_call_def
     click_confirm_def get_instance_def set_instance_owner_def Instance_stop_def Instance_start_def
     transfer_entities_def Instance_connect_def logger_info_def done_ok_def Instance_id_def
     Instance_status_def Let_def)

lemma steps_completed_calls:
  "steps (completed_calls rt cid te url a n old new cpu mem tok inst) =
     [Authenticate, AskConfirmation, LocateInstance, ReassignOwner] @
     (if sdk_status inst = PyStr ''running'' then [StopInstance] else []) @
     [StartInstance, TransferStep, StopInstance, ReassignOwner, LogResult]"
  by (simp add: steps_def completed_calls_def List.map_filter_def step_of_def)

lemma example_handle:
  "handle example_env example_config (PyStr ''admin'') (PyStr ''dai'') (PyStr ''old'') (PyStr ''new'')
      PyNone PyNone [] =
     (Inr (),
      [TokenProvider (PyStr ''rt-1'') (PyStr ''cli'') (PyStr ''https://auth/token''), TokenProviderCall,
       Login ''https://steam'' (PyStr ''tok''), TokenProviderClose,
       Confirm (confirm_text (PyStr ''dai'') (PyStr ''old'') (PyStr ''new'')),
       GetInstance (PyStr ''dai'') (PyStr ''old''), SetOwner 7 (PyStr ''admin''),
       Stop example_instance, Start example_instance PyNone PyNone, Connect example_instance,
       TransferEntities (PyStr ''old'') (PyStr ''new''), Stop example_instance,
       SetOwner 7 (PyStr ''new''), LogInfo ''Transfer complete.''])"
  by (simp add: run_defs example_defs)

section \<open>C1: the order of the calls\<close>

text \<open>
  C1 as the specification words it gives the order authenticate, locate instance, confirm,
  stop, reassign, start, transfer, reassign, log. On the example run, with the prompt
  confirmed, \<open>handle\<close> asks for confirmation before it locates the instance, reassigns the
  owner before it stops the instance, and stops the instance a second time after the
  transfer: the order of its steps is not the documented one.
\<close>

theorem handle_documented_order_counterexample:
  "answer example_env
     [TokenProvider (PyStr ''rt-1'') (PyStr ''cli'') (PyStr ''https://auth/token''), TokenProviderCall,
      Login ''https://steam'' (PyStr ''tok''), TokenProviderClose,
      Confirm (confirm_text (PyStr ''dai'') (PyStr ''old'') (PyStr ''new''))] \<and>
   fst (handle example_env example_config (PyStr ''admin'') (PyStr ''dai'') (PyStr ''old'') (PyStr ''new'')
      PyNone PyNone []) = Inr () \<and>
   steps (snd (handle example_env example_config (PyStr ''admin'') (PyStr ''dai'') (PyStr ''old'')
      (PyStr ''new'') PyNone PyNone [])) =
     [Authenticate, AskConfirmation, LocateInstance, ReassignOwner, StopInstance, StartInstance,
      TransferStep, StopInstance, ReassignOwner, LogResult] \<and>
   steps (snd (handle example_env example_config (PyStr ''admin'') (PyStr ''dai'') (PyStr ''old'')
      (PyStr ''new'') PyNone PyNone [])) \<noteq> documented_order"
proof -
  have a: "answer example_env p" for p
    by (simp add: example_env_def)
  show ?thesis
    unfolding example_handle
    by (simp add: a steps_def List.map_filter_def step_of_def documented_order_def)
qed

text \<open>
  C1, amended. Whenever \<open>handle\<close> returns, its calls are, in this order: build the token
  provider, fetch the token, log in and close the provider (authenticate); the confirmation
  prompt; the lookup of the instance under the old owner; the owner reassigned to the
  administrator; a stop, only if the status is \<^verbatim>\<open>running\<close>; the start with the given
  resources; connect and transfer the entities from the old to the new user; a stop; the
  owner reassigned to the new user; the log line. The token provider is built from the
  three fields read from the config, the login uses the token the provider returned, and
  the instance is the one the lookup found. \<open>handle\<close> does return when the three fields can
  be read, the prompt is confirmed, no call fails and the instance is found. A run of the
  callback that exits with code 0 has gone through these steps in this order.
\<close>

theorem handle_call_order:
  "(\<forall>h'. handle env config a n old new cpu mem h = (Inr (), h') \<longrightarrow>
      (\<exists>inst tok rt cid te.
         refresh_token config = Inr rt \<and> client_id config = Inr cid \<and>
         token_endpoint config = Inr te \<and>
         tok = access_token env (h @ [TokenProvider rt cid te, TokenProviderCall]) \<and>
         found env
           (h @ [TokenProvider rt cid te, TokenProviderCall, Login (steam_url config) tok,
                 TokenProviderClose, Confirm (confirm_text n old new), GetInstance n old]) =
           Some inst \<and>
         h' = h @
           [TokenProvider rt cid te,
            TokenProviderCall, Login (steam_url config) tok, TokenProviderClose,
            Confirm (confirm_text n old new), GetInstance n old, SetOwner (sdk_id inst) a] @
           (if sdk_status inst = PyStr ''running'' then [Stop inst] else []) @
           [Start inst cpu mem, Connect inst, TransferEntities old new, Stop inst,
            SetOwner (sdk_id inst) new, LogInfo ''Transfer complete.''] \<and>
         steps (drop (length h) h') =
           [Authenticate, AskConfirmation, LocateInstance, ReassignOwner] @
           (if sdk_status inst = PyStr ''running'' then [StopInstance] else []) @
           [StartInstance, TransferStep, StopInstance, ReassignOwner, LogResult])) \<and>
   ((\<exists>rt. refresh_token config = Inr rt) \<and> (\<exists>cid. client_id config = Inr cid) \<and>
    (\<exists>te. token_endpoint config = Inr te) \<and>
    (\<forall>p. fails env p = None) \<and> (\<forall>p. answer env p) \<and> (\<exists>inst. \<forall>p. found env p = Some inst) \<longrightarrow>
      fst (handle env config a n old new cpu mem h) = Inr ()) \<and>
   (exit_code (run_with env opts) = 0 \<longrightarrow>
      (\<exists>running.
         steps (calls (run_with env opts)) =
           [Authenticate, AskConfirmation, LocateInstance, ReassignOwner] @
           (if running then [StopInstance] else []) @
           [StartInstance, TransferStep, StopInstance, ReassignOwner, LogResult]))"
proof (intro conjI allI impI)
  fix h'
  assume "handle env config a n old new cpu mem h = (Inr (), h')"
  from handle_success [OF this] obtain inst tok rt cid te
    where f: "refresh_token config = Inr rt" "client_id config = Inr cid"
        "token_endpoint config = Inr te"
      and t: "tok = access_token env (h @ [TokenProvider rt cid te, TokenProviderCall])"
      and i: "found env
           (h @ [TokenProvider rt cid te, TokenProviderCall, Login (steam_url config) tok,
                 TokenProviderClose, Confirm (confirm_text n old new), GetInstance n old]) =
           Some inst"
      and h': "h' = h @ completed_calls rt cid te (steam_url config) a n old new cpu mem tok inst"
    by blast
  have "drop (length h) h' = completed_calls rt cid te (steam_url config) a n old new cpu mem tok inst"
    by (simp add: h')
  then have s: "steps (drop (length h) h') =
           [Authenticate, AskConfirmation, LocateInstance, ReassignOwner] @
           (if sdk_status inst = PyStr ''running'' then [StopInstance] else []) @
           [StartInstance, TransferStep, StopInstance, ReassignOwner, LogResult]"
    by (simp only: steps_completed_calls)
  have c: "h' = h @
           [TokenProvider rt cid te,
            TokenProviderCall, Login (steam_url config) tok, TokenProviderClose,
            Confirm (confirm_text n old new), GetInstance n old, SetOwner (sdk_id inst) a] @
           (if sdk_status inst = PyStr ''running'' then [Stop inst] else []) @
           [Start inst cpu mem, Connect inst, TransferEntities old new, Stop inst,
            SetOwner (sdk_id inst) new, LogInfo ''Transfer complete.'']"
    using h' unfolding completed_calls_def .
  show "\<exists>inst tok rt cid te.
         refresh_token config = Inr rt \<and> client_id config = Inr cid \<and>
         token_endpoint config = Inr te \<and>
         tok = access_token env (h @ [TokenProvider rt cid te, TokenProviderCall]) \<and>
         found env
           (h @ [TokenProvider rt cid te, TokenProviderCall, Login (steam_url config) tok,
                 TokenProviderClose, Confirm (confirm_text n old new), GetInstance n old]) =
           Some inst \<and>
         h' = h @
           [TokenProvider rt cid te,
            TokenProviderCall, Login (steam_url config) tok, TokenProviderClose,
            Confirm (confirm_text n old new), GetInstance n old, SetOwner (sdk_id inst) a] @
           (if sdk_status inst = PyStr ''running'' then [Stop inst] else []) @
           [Start inst cpu mem, Connect inst, TransferEntities old new, Stop inst,
            SetOwner (sdk_id inst) new, LogInfo ''Transfer complete.''] \<and>
         steps (drop (length h) h') =
           [Authenticate, AskConfirmation, LocateInstance, ReassignOwner] @
           (if sdk_status inst = PyStr ''running'' then [StopInstance] else []) @
           [StartInstance, TransferStep, StopInstance, ReassignOwner, LogResult]"
    using f t i c s by blast
next
  assume "(\<exists>rt. refresh_token config = Inr rt) \<and> (\<exists>cid. client_id config = Inr cid) \<and>
    (\<exists>te. token_endpoint config = Inr te) \<and>
    (\<forall>p. fails env p = None) \<and> (\<forall>p. answer env p) \<and> (\<exists>inst. \<forall>p. found env p = Some inst)"
  then show "fst (handle env config a n old new cpu mem h) = Inr ()"
    using handle_nothing_fails by blast
next
  assume z: "exit_code (run_with env opts) = 0"
  obtain r h' where b: "try_block env opts [] = (r, h')"
    by (cases "try_block env opts []")
  from z b have r: "r = Inr ()" and c: "calls (run_with env opts) = h'"
    by (auto simp: run_with_def top_level_def split: sum.splits)
  from b r obtain config where
    "handle env config (admin_user_name opts) (instance_name opts) (old_user_name opts)
       (new_user_name opts) (instance_cpu opts) (instance_mem opts) [] = (Inr (), h')"
    by (auto simp: try_block_def split: sum.splits)
  from handle_success [OF this] obtain inst tok rt cid te where
    "h' = completed_calls rt cid te (steam_url config) (admin_user_name opts) (instance_name opts)
       (old_user_name opts) (new_user_name opts) (instance_cpu opts) (instance_mem opts) tok inst"
    by auto
  then have "steps (calls (run_with env opts)) =
           [Authenticate, AskConfirmation, LocateInstance, ReassignOwner] @
           (if sdk_status inst = PyStr ''running'' then [StopInstance] else []) @
           [StartInstance, TransferStep, StopInstance, ReassignOwner, LogResult]"
    by (simp only: c steps_completed_calls)
  then show "\<exists>running.
         steps (calls (run_with env opts)) =
           [Authenticate, AskConfirmation, LocateInstance, ReassignOwner] @
           (if running then [StopInstance] else []) @
           [StartInstance, TransferStep, StopInstance, ReassignOwner, LogResult]"
    by blast
qed

theorem handle_call_order_witness:
  "handle example_env example_config (PyStr ''admin'') (PyStr ''dai'') (PyStr ''old'') (PyStr ''new'')
      PyNone PyNone [] =
     (Inr (),
      [TokenProvider (PyStr ''rt-1'') (PyStr ''cli'') (PyStr ''https://auth/token''), TokenProviderCall,
       Login ''https://steam'' (PyStr ''tok''), TokenProviderClose,
       Confirm (confirm_text (PyStr ''dai'') (PyStr ''old'') (PyStr ''new'')),
       GetInstance (PyStr ''dai'') (PyStr ''old''), SetOwner 7 (PyStr ''admin''),
       Stop example_instance, Start example_instance PyNone PyNone, Connect example_instance,
       TransferEntities (PyStr ''old'') (PyStr ''new''), Stop example_instance,
       SetOwner 7 (PyStr ''new''), LogInfo ''Transfer complete.'']) \<and>
   refresh_token example_config = Inr (PyStr ''rt-1'') \<and>
   client_id example_config = Inr (PyStr ''cli'') \<and>
   token_endpoint example_config = Inr (PyStr ''https://auth/token'') \<and>
   fails example_env = (\<lambda>p. None) \<and> answer example_env = (\<lambda>p. True) \<and>
   found example_env = (\<lambda>p. Some example_instance) \<and>
   exit_code (run_with example_env example_options) = 0 \<and>
   steps (calls (run_with example_env example_options)) =
     [Authenticate, AskConfirmation, LocateInstance, ReassignOwner, StopInstance, StartInstance,
      TransferStep, StopInstance, ReassignOwner, LogResult]"
proof -
  have e: "fails example_env = (\<lambda>p. None)" "answer example_env = (\<lambda>p. True)"
      "found example_env = (\<lambda>p. Some example_instance)"
    by (simp_all add: example_env_def)
  have c: "refresh_token example_config = Inr (PyStr ''rt-1'')"
      "client_id example_config = Inr (PyStr ''cli'')"
      "token_endpoint example_config = Inr (PyStr ''https://auth/token'')"
    by (simp_all add: example_config_def example_section_def refresh_token_def client_id_def
          token_endpoint_def section_get_def)
  have k: "Config_init (files example_env) (steam_url_option example_options) = Inr example_config"
    by (simp add: Config_init_def call_rstrip_def rstrip_def load_config_def example_options_def
          example_files_def example_config_def example_env_def)
  have o: "handle example_env example_config (admin_user_name example_options)
      (instance_name example_options) (old_user_name example_options) (new_user_name example_options)
      (instance_cpu example_options) (instance_mem example_options) [] =
      handle example_env example_config (PyStr ''admin'') (PyStr ''dai'') (PyStr ''old'') (PyStr ''new'')
      PyNone PyNone []"
    by (simp add: example_options_def)
  have r: "run_with example_env example_options =
      \<lparr>exit_code = 0,
       calls = snd (handle example_env example_config (PyStr ''admin'') (PyStr ''dai'') (PyStr ''old'')
         (PyStr ''new'') PyNone PyNone [])\<rparr>"
    by (simp add: run_with_def try_block_def k o top_level_def example_handle)
  have s: "steps (calls (run_with example_env example_options)) =
     [Authenticate, AskConfirmation, LocateInstance, ReassignOwner, StopInstance, StartInstance,
      TransferStep, StopInstance, ReassignOwner, LogResult]"
    by (simp add: r example_handle steps_def List.map_filter_def step_of_def)
  note handle_call_order
         [of example_env example_config "PyStr ''admin''" "PyStr ''dai''" "PyStr ''old''" "PyStr ''new''"
             PyNone PyNone "[]" example_options]
  then show ?thesis
    using example_handle c e r s by (simp del: fun_eq_iff)
qed

section \<open>C10: the instance is left stopped and owned by the new user\<close>

lemma handle_initial_stop:
  assumes "handle env config a n old new cpu mem h = (r, h @ ext)"
  shows "\<forall>inst. Stop inst \<in> set (takeWhile (\<lambda>c. \<not> is_start c) ext) \<longrightarrow>
           sdk_status inst = PyStr ''running''"
  using assms
  unfolding run_defs
  by (auto simp: is_start_def split: option.splits if_splits sum.splits)

lemma state_after_completed_calls:
  "state_after (completed_calls rt cid te url a n old new cpu mem tok inst) s =
     \<lparr>is_running = False, owner = new\<rparr>"
  by (simp add: state_after_def completed_calls_def effect_def)

lemma completed_calls_initial_stop:
  "Stop inst \<in> set (takeWhile (\<lambda>c. \<not> is_start c) (completed_calls rt cid te url a n old new cpu mem tok inst))
     \<longleftrightarrow> sdk_status inst = PyStr ''running''"
  by (simp add: completed_calls_def is_start_def)

text \<open>
  C10. In every call of \<open>handle\<close>, a stop issued before the start is issued only for an
  instance whose status is \<^verbatim>\<open>running\<close>. When \<open>handle\<close> returns, its last four calls are
  the entity transfer, a stop of the instance, the reassignment of the owner to the new user
  and the log line; the stop before the start was issued exactly when the status was
  \<^verbatim>\<open>running\<close>; and the calls leave the instance stopped and owned by the new user, whatever
  its state before.
\<close>

theorem handle_leaves_instance_stopped_and_reowned:
  "\<forall>r h'. handle env config a n old new cpu mem h = (r, h') \<longrightarrow>
     (\<exists>ext. h' = h @ ext \<and>
        (\<forall>inst. Stop inst \<in> set (takeWhile (\<lambda>c. \<not> is_start c) ext) \<longrightarrow>
           sdk_status inst = PyStr ''running'') \<and>
        (r = Inr () \<longrightarrow>
           (\<exists>pre inst.
              ext = pre @ [TransferEntities old new, Stop inst, SetOwner (sdk_id inst) new,
                           LogInfo ''Transfer complete.''] \<and>
              (Stop inst \<in> set (takeWhile (\<lambda>c. \<not> is_start c) ext) \<longleftrightarrow>
                 sdk_status inst = PyStr ''running'') \<and>
              (\<forall>s. state_after ext s = \<lparr>is_running = False, owner = new\<rparr>))))"
proof (intro allI impI)
  fix r h'
  assume run: "handle env config a n old new cpu mem h = (r, h')"
  obtain ext where ext: "h' = h @ ext"
    using handle_extends [of env config a n old new cpu mem h] run by auto
  have a: "\<forall>inst. Stop inst \<in> set (takeWhile (\<lambda>c. \<not> is_start c) ext) \<longrightarrow>
           sdk_status inst = PyStr ''running''"
    using handle_initial_stop [OF run [unfolded ext]] .
  have b: "\<exists>pre inst.
              ext = pre @ [TransferEntities old new, Stop inst, SetOwner (sdk_id inst) new,
                           LogInfo ''Transfer complete.''] \<and>
              (Stop inst \<in> set (takeWhile (\<lambda>c. \<not> is_start c) ext) \<longleftrightarrow>
                 sdk_status inst = PyStr ''running'') \<and>
              (\<forall>s. state_after ext s = \<lparr>is_running = False, owner = new\<rparr>)"
    if "r = Inr ()"
  proof -
    from run that have "handle env config a n old new cpu mem h = (Inr (), h')" by simp
    from handle_success [OF this] ext obtain inst tok rt cid te
      where e: "ext = completed_calls rt cid te (steam_url config) a n old new cpu mem tok inst"
      by auto
    let ?pre = "[TokenProvider rt cid te,
      TokenProviderCall, Login (steam_url config) tok, TokenProviderClose,
      Confirm (confirm_text n old new), GetInstance n old, SetOwner (sdk_id inst) a] @
     (if sdk_status inst = PyStr ''running'' then [Stop inst] else []) @
     [Start inst cpu mem, Connect inst]"
    have "ext = ?pre @ [TransferEntities old new, Stop inst, SetOwner (sdk_id inst) new,
                           LogInfo ''Transfer complete.'']"
      by (simp add: e completed_calls_def)
    moreover have "Stop inst \<in> set (takeWhile (\<lambda>c. \<not> is_start c) ext) \<longleftrightarrow>
                 sdk_status inst = PyStr ''running''"
      unfolding e by (rule completed_calls_initial_stop)
    moreover have "\<forall>s. state_after ext s = \<lparr>is_running = False, owner = new\<rparr>"
      unfolding e by (simp add: state_after_completed_calls)
    ultimately show ?thesis by blast
  qed
  show "\<exists>ext. h' = h @ ext \<and>
        (\<forall>inst. Stop inst \<in> set (takeWhile (\<lambda>c. \<not> is_start c) ext) \<longrightarrow>
           sdk_status inst = PyStr ''running'') \<and>
        (r = Inr () \<longrightarrow>
           (\<exists>pre inst.
              ext = pre @ [TransferEntities old new, Stop inst, SetOwner (sdk_id inst) new,
                           LogInfo ''Transfer complete.''] \<and>
              (Stop inst \<in> set (takeWhile (\<lambda>c. \<not> is_start c) ext) \<longleftrightarrow>
                 sdk_status inst = PyStr ''running'') \<and>
              (\<forall>s. state_after ext s = \<lparr>is_running = False, owner = new\<rparr>)))"
    using ext a b by blast
qed

theorem handle_leaves_instance_stopped_witness:
  "handle instance_at_rest example_config (PyStr ''admin'') (PyStr ''dai'') (PyStr ''old'') (PyStr ''new'')
      PyNone PyNone [] =
     (Inr (),
      [TokenProvider (PyStr ''rt-1'') (PyStr ''cli'') (PyStr ''https://auth/token''), TokenProviderCall,
       Login ''https://steam'' (PyStr ''tok''), TokenProviderClose,
       Confirm (confirm_text (PyStr ''dai'') (PyStr ''old'') (PyStr ''new'')),
       GetInstance (PyStr ''dai'') (PyStr ''old''), SetOwner 7 (PyStr ''admin''),
       Start \<lparr>sdk_id = 7, sdk_status = PyStr ''stopped''\<rparr> PyNone PyNone,
       Connect \<lparr>sdk_id = 7, sdk_status = PyStr ''stopped''\<rparr>,
       TransferEntities (PyStr ''old'') (PyStr ''new''),
       Stop \<lparr>sdk_id = 7, sdk_status = PyStr ''stopped''\<rparr>,
       SetOwner 7 (PyStr ''new''), LogInfo ''Transfer complete.'']) \<and>
   fst (handle example_env example_config (PyStr ''admin'') (PyStr ''dai'') (PyStr ''old'') (PyStr ''new'')
      PyNone PyNone []) = Inr () \<and>
   Stop example_instance \<in> set (takeWhile (\<lambda>c. \<not> is_start c)
     (snd (handle example_env example_config (PyStr ''admin'') (PyStr ''dai'') (PyStr ''old'')
        (PyStr ''new'') PyNone PyNone []))) \<and>
   sdk_status example_instance = PyStr ''running'' \<and>
   state_after
     (snd (handle example_env example_config (PyStr ''admin'') (PyStr ''dai'') (PyStr ''old'')
        (PyStr ''new'') PyNone PyNone []))
     \<lparr>is_running = True, owner = PyStr ''old''\<rparr> = \<lparr>is_running = False, owner = PyStr ''new''\<rparr>"
proof -
  have 1: "handle instance_at_rest example_config (PyStr ''admin'') (PyStr ''dai'') (PyStr ''old'') (PyStr ''new'')
      PyNone PyNone [] =
     (Inr (),
      [TokenProvider (PyStr ''rt-1'') (PyStr ''cli'') (PyStr ''https://auth/token''), TokenProviderCall,
       Login ''https://steam'' (PyStr ''tok''), TokenProviderClose,
       Confirm (confirm_text (PyStr ''dai'') (PyStr ''old'') (PyStr ''new'')),
       GetInstance (PyStr ''dai'') (PyStr ''old''), SetOwner 7 (PyStr ''admin''),
       Start \<lparr>sdk_id = 7, sdk_status = PyStr ''stopped''\<rparr> PyNone PyNone,
       Connect \<lparr>sdk_id = 7, sdk_status = PyStr ''stopped''\<rparr>,
       TransferEntities (PyStr ''old'') (PyStr ''new''),
       Stop \<lparr>sdk_id = 7, sdk_status = PyStr ''stopped''\<rparr>,
       SetOwner 7 (PyStr ''new''), LogInfo ''Transfer complete.''])"
    by (simp add: run_defs example_defs instance_at_rest_def)
  have 2: "sdk_status example_instance = PyStr ''running''"
    by (simp add: example_instance_def)
  have 3: "Stop example_instance \<in> set (takeWhile (\<lambda>c. \<not> is_start c)
     (snd (handle example_env example_config (PyStr ''admin'') (PyStr ''dai'') (PyStr ''old'')
        (PyStr ''new'') PyNone PyNone [])))"
    unfolding example_handle by (simp add: is_start_def)
  have 4: "state_after
     (snd (handle example_env example_config (PyStr ''admin'') (PyStr ''dai'') (PyStr ''old'')
        (PyStr ''new'') PyNone PyNone []))
     \<lparr>is_running = True, owner = PyStr ''old''\<rparr> = \<lparr>is_running = False, owner = PyStr ''new''\<rparr>"
    using handle_leaves_instance_stopped_and_reowned
            [of example_env example_config "PyStr ''admin''" "PyStr ''dai''" "PyStr ''old''"
                "PyStr ''new''" PyNone PyNone "[]"]
          example_handle
    by auto
  show ?thesis
    using 1 2 3 4 example_handle by simp
qed

section \<open>C2: the command as it is invoked\<close>

lemma instance_transfer_body:
  "instance_transfer env = \<lparr>exit_code = 1, calls = [LogError (AttributeError no_rstrip)]\<rparr>"
  by (simp add: instance_transfer_def run_with_def try_block_def parse_command_line_options_def
        click_option_fn_def Config_init_def call_rstrip_def type_name_def top_level_def no_rstrip_def)

lemma built_flags:
  "map flag_of built_options =
     [''--admin-user-name'', ''--steam-url'', ''--instance-name'', ''--old-user-name'',
      ''--new-user-name'', ''--instance-cpu'', ''--instance-mem'']"
  by (simp add: built_options_def parse_command_line_options_def click_option_fn_def flag_of_def)

lemma click_parse_args_cases:
  "click_parse_args argv help extra = Invoke \<or> click_parse_args argv help extra = UsageExit \<or>
   click_parse_args argv help extra = HelpExit"
  by (cases "click_parse_args argv help extra") simp_all

lemma command_cases:
  "instance_transfer_command env argv = instance_transfer env \<or>
   instance_transfer_command env argv = \<lparr>exit_code = 2, calls = [EchoUsageError]\<rparr> \<or>
   instance_transfer_command env argv = \<lparr>exit_code = 0, calls = [EchoHelp]\<rparr>"
  by (cases "click_parse_args argv False False") (simp_all add: instance_transfer_command_def)

lemma built_flag_rejected:
  assumes "flag \<in> set (map flag_of built_options)"
  shows "instance_transfer_command env (flag # rest) = \<lparr>exit_code = 2, calls = [EchoUsageError]\<rparr>"
  using assms unfolding built_flags
  by (auto simp: instance_transfer_command_def)

lemma click_parse_args_Invoke:
  "click_parse_args argv seen left = Invoke \<longleftrightarrow>
     \<not> seen \<and> \<not> left \<and> (argv = [] \<or> argv = [''--''])"
  by (induction argv arbitrary: seen left) (auto simp: click_finish_def)

lemma click_parse_args_no_help:
  "''--help'' \<notin> set argv \<Longrightarrow> \<not> seen \<Longrightarrow> click_parse_args argv seen left \<noteq> HelpExit"
  by (induction argv arbitrary: seen left) (auto simp: click_finish_def)

lemma command_not_invoked:
  assumes "argv \<noteq> []" and "argv \<noteq> [''--'']"
  shows "instance_transfer_command env argv = \<lparr>exit_code = 2, calls = [EchoUsageError]\<rparr> \<or>
         instance_transfer_command env argv = \<lparr>exit_code = 0, calls = [EchoHelp]\<rparr>"
  using assms click_parse_args_Invoke [of argv False False]
  by (cases "click_parse_args argv False False") (simp_all add: instance_transfer_command_def)

lemma command_usage_error:
  assumes "argv \<noteq> []" and "argv \<noteq> [''--'']" and "''--help'' \<notin> set argv"
  shows "instance_transfer_command env argv = \<lparr>exit_code = 2, calls = [EchoUsageError]\<rparr>"
  using assms click_parse_args_Invoke [of argv False False]
    click_parse_args_no_help [of argv False False]
  by (cases "click_parse_args argv False False") (simp_all add: instance_transfer_command_def)

lemma built_flag_with_value_rejected:
  assumes "flag \<in> set (map flag_of built_options)"
  shows "instance_transfer_command env ((flag @ ''='' @ v) # rest) =
           \<lparr>exit_code = 2, calls = [EchoUsageError]\<rparr>"
  using assms unfolding built_flags
  by (auto simp: instance_transfer_command_def)

lemma built_flag_anywhere:
  assumes "flag \<in> set (map flag_of built_options)" and "flag \<in> set argv"
  shows "argv \<noteq> [] \<and> argv \<noteq> [''--'']"
  using assms unfolding built_flags by auto

text \<open>
  C2 as stated says that every invocation, whatever its arguments, logs a traceback and exits
  with code 1. An invocation that passes \<^verbatim>\<open>--steam-url\<close> does not: click knows no such
  option on this command, prints a usage error and exits with code 2, and the callback, with
  its handler and its log, never runs.
\<close>

theorem command_with_flag_counterexample:
  "exit_code (instance_transfer_command example_env [''--steam-url'', ''https://steam'']) = 2 \<and>
   calls (instance_transfer_command example_env [''--steam-url'', ''https://steam'']) = [EchoUsageError] \<and>
   exit_code (instance_transfer_command example_env [''--steam-url'', ''https://steam'']) \<noteq> 1"
  by (simp add: instance_transfer_command_def)

text \<open>
  C2, amended. Whatever the environment (the config file included), the callback raises
  \<open>AttributeError\<close> at \<^verbatim>\<open>steam_url.rstrip\<close>, because the value it takes from
  \<open>parse_command_line_options\<close> is a decorator and not a string; the handler logs the
  traceback and exits with code 1, and that log is the only call of the run. click runs the
  callback when the argument list is empty or is the single argument \<^verbatim>\<open>--\<close>. Every other
  invocation is ended by click before the callback runs, with a usage error (exit code 2) or
  the help page (exit code 0), and nothing is logged: with the usage error whenever
  \<^verbatim>\<open>--help\<close> is not among the arguments, and whenever the first argument is one of the
  seven flags the script builds, alone or as \<^verbatim>\<open>--flag=value\<close>. So an invocation that has
  one of the seven flags anywhere among its arguments never runs the callback. \<^verbatim>\<open>--help\<close>
  alone gives the help page. In no case is a remote call issued.
\<close>

theorem instance_transfer_never_calls_out:
  "instance_transfer env = \<lparr>exit_code = 1, calls = [LogError (AttributeError no_rstrip)]\<rparr> \<and>
   instance_transfer_command env [] = instance_transfer env \<and>
   (argv = [] \<or> argv = [''--''] \<longrightarrow> instance_transfer_command env argv = instance_transfer env) \<and>
   (argv \<noteq> [] \<and> argv \<noteq> [''--''] \<longrightarrow>
      instance_transfer_command env argv = \<lparr>exit_code = 2, calls = [EchoUsageError]\<rparr> \<or>
      instance_transfer_command env argv = \<lparr>exit_code = 0, calls = [EchoHelp]\<rparr>) \<and>
   (argv \<noteq> [] \<and> argv \<noteq> [''--''] \<and> ''--help'' \<notin> set argv \<longrightarrow>
      instance_transfer_command env argv = \<lparr>exit_code = 2, calls = [EchoUsageError]\<rparr>) \<and>
   (\<forall>flag \<in> set (map flag_of built_options). flag \<in> set argv \<longrightarrow>
      (instance_transfer_command env argv = \<lparr>exit_code = 2, calls = [EchoUsageError]\<rparr> \<or>
       instance_transfer_command env argv = \<lparr>exit_code = 0, calls = [EchoHelp]\<rparr>) \<and>
      (''--help'' \<notin> set argv \<longrightarrow>
         instance_transfer_command env argv = \<lparr>exit_code = 2, calls = [EchoUsageError]\<rparr>)) \<and>
   (\<forall>flag \<in> set (map flag_of built_options). \<forall>rest v.
       instance_transfer_command env (flag # rest) = \<lparr>exit_code = 2, calls = [EchoUsageError]\<rparr> \<and>
       instance_transfer_command env ((flag @ ''='' @ v) # rest) =
         \<lparr>exit_code = 2, calls = [EchoUsageError]\<rparr>) \<and>
   instance_transfer_command env [''--help''] = \<lparr>exit_code = 0, calls = [EchoHelp]\<rparr> \<and>
   (instance_transfer_command env argv = instance_transfer env \<or>
    instance_transfer_command env argv = \<lparr>exit_code = 2, calls = [EchoUsageError]\<rparr> \<or>
    instance_transfer_command env argv = \<lparr>exit_code = 0, calls = [EchoHelp]\<rparr>) \<and>
   (\<forall>c \<in> set (calls (instance_transfer_command env argv)).
       c = LogError (AttributeError no_rstrip) \<or> c = EchoUsageError \<or> c = EchoHelp)"
proof -
  have 1: "instance_transfer_command env [] = instance_transfer env"
    by (simp add: instance_transfer_command_def click_finish_def)
  have 2: "instance_transfer_command env argv = instance_transfer env"
    if "argv = [] \<or> argv = [''--'']"
    using that by (auto simp: instance_transfer_command_def click_finish_def)
  have 3: "instance_transfer_command env [''--help''] = \<lparr>exit_code = 0, calls = [EchoHelp]\<rparr>"
    by (simp add: instance_transfer_command_def click_finish_def)
  have 4: "\<forall>c \<in> set (calls (instance_transfer_command env argv)).
       c = LogError (AttributeError no_rstrip) \<or> c = EchoUsageError \<or> c = EchoHelp"
    using command_cases [of env argv] by (auto simp: instance_transfer_body)
  have 5: "(instance_transfer_command env argv = \<lparr>exit_code = 2, calls = [EchoUsageError]\<rparr> \<or>
       instance_transfer_command env argv = \<lparr>exit_code = 0, calls = [EchoHelp]\<rparr>) \<and>
      (''--help'' \<notin> set argv \<longrightarrow>
         instance_transfer_command env argv = \<lparr>exit_code = 2, calls = [EchoUsageError]\<rparr>)"
    if "flag \<in> set (map flag_of built_options)" "flag \<in> set argv" for flag
    using built_flag_anywhere [OF that] command_not_invoked [of argv env]
      command_usage_error [of argv env]
    by blast
  have 6: "instance_transfer_command env (flag # rest) = \<lparr>exit_code = 2, calls = [EchoUsageError]\<rparr> \<and>
       instance_transfer_command env ((flag @ ''='' @ v) # rest) =
         \<lparr>exit_code = 2, calls = [EchoUsageError]\<rparr>"
    if "flag \<in> set (map flag_of built_options)" for flag rest v
    using built_flag_rejected [OF that] built_flag_with_value_rejected [OF that] by blast
  show ?thesis
    using instance_transfer_body [of env] 1 2 3 4 5 6 command_cases [of env argv]
      command_not_invoked [of argv env] command_usage_error [of argv env]
    by blast
qed

theorem instance_transfer_never_calls_out_witness:
  "''--steam-url'' \<in> set (map flag_of built_options) \<and>
   instance_transfer_command example_env [''--steam-url'', ''https://steam''] =
     \<lparr>exit_code = 2, calls = [EchoUsageError]\<rparr> \<and>
   instance_transfer_command example_env [''--steam-url=https://steam''] =
     \<lparr>exit_code = 2, calls = [EchoUsageError]\<rparr> \<and>
   ''--steam-url'' \<in> set [''transfer'', ''--steam-url'', ''https://steam''] \<and>
   ''--help'' \<notin> set [''transfer'', ''--steam-url'', ''https://steam''] \<and>
   instance_transfer_command example_env [''transfer'', ''--steam-url'', ''https://steam''] =
     \<lparr>exit_code = 2, calls = [EchoUsageError]\<rparr> \<and>
   instance_transfer_command example_env [''--help'', ''--'', ''--steam-url'', ''https://steam''] =
     \<lparr>exit_code = 0, calls = [EchoHelp]\<rparr> \<and>
   instance_transfer_command example_env [] =
     \<lparr>exit_code = 1, calls = [LogError (AttributeError no_rstrip)]\<rparr> \<and>
   instance_transfer_command example_env [''--''] =
     \<lparr>exit_code = 1, calls = [LogError (AttributeError no_rstrip)]\<rparr> \<and>
   instance_transfer_command example_env [''--help''] = \<lparr>exit_code = 0, calls = [EchoHelp]\<rparr> \<and>
   LogError (AttributeError no_rstrip) \<in> set (calls (instance_transfer_command example_env []))"
proof -
  have f: "''--steam-url'' \<in> set (map flag_of built_options)"
    unfolding built_flags by simp
  have m: "''--steam-url'' \<in> set [''transfer'', ''--steam-url'', ''https://steam'']"
      "''--help'' \<notin> set [''transfer'', ''--steam-url'', ''https://steam'']"
    by simp_all
  have h: "instance_transfer_command example_env [''--help'', ''--'', ''--steam-url'', ''https://steam''] =
     \<lparr>exit_code = 0, calls = [EchoHelp]\<rparr>"
    by (simp add: instance_transfer_command_def click_finish_def)
  note t = instance_transfer_never_calls_out [of example_env "[]"]
  note d = instance_transfer_never_calls_out [of example_env "[''--'']"]
  note u = instance_transfer_never_calls_out
             [of example_env "[''transfer'', ''--steam-url'', ''https://steam'']"]
  from t f have a: "instance_transfer_command example_env [''--steam-url'', ''https://steam''] =
     \<lparr>exit_code = 2, calls = [EchoUsageError]\<rparr>"
    by blast
  from t f have "instance_transfer_command example_env ((''--steam-url'' @ ''='' @ ''https://steam'') # []) =
     \<lparr>exit_code = 2, calls = [EchoUsageError]\<rparr>"
    by blast
  then have b: "instance_transfer_command example_env [''--steam-url=https://steam''] =
     \<lparr>exit_code = 2, calls = [EchoUsageError]\<rparr>"
    by simp
  from u f m have c: "instance_transfer_command example_env [''transfer'', ''--steam-url'', ''https://steam''] =
     \<lparr>exit_code = 2, calls = [EchoUsageError]\<rparr>"
    by blast
  from t have e: "instance_transfer_command example_env [] =
     \<lparr>exit_code = 1, calls = [LogError (AttributeError no_rstrip)]\<rparr>"
    by simp
  from d have g: "instance_transfer_command example_env [''--''] =
     \<lparr>exit_code = 1, calls = [LogError (AttributeError no_rstrip)]\<rparr>"
    by simp
  from t have i: "instance_transfer_command example_env [''--help''] = \<lparr>exit_code = 0, calls = [EchoHelp]\<rparr>"
    by blast
  show ?thesis
    using f m a b c h e g i by simp
qed

section \<open>C4: the flags of the command line\<close>

text \<open>
  C4. The script builds seven options, the first five required, but never registers them
  on the command. So an invocation that passes all five required flags is rejected with a
  usage error, and an invocation that passes none of them is not rejected by the parser:
  the callback runs (and fails at \<^verbatim>\<open>rstrip\<close>).
\<close>

theorem required_flags_are_rejected:
  "map required_of built_options = [True, True, True, True, True, False, False] \<and>
   instance_transfer_command example_env
     [''--admin-user-name'', ''admin'', ''--steam-url'', ''https://steam'', ''--instance-name'', ''dai'',
      ''--old-user-name'', ''old'', ''--new-user-name'', ''new''] =
     \<lparr>exit_code = 2, calls = [EchoUsageError]\<rparr> \<and>
   click_parse_args [] False False = Invoke \<and>
   instance_transfer_command example_env [] =
     \<lparr>exit_code = 1, calls = [LogError (AttributeError no_rstrip)]\<rparr>"
  by (simp add: instance_transfer_command_def click_finish_def instance_transfer_body built_options_def
        parse_command_line_options_def click_option_fn_def required_of_def)

end
